theory Spec2Isabelle
  imports Main "HOL-Library.Word" "HOL-Library.AList" "HOL-Library.Char_ord"
    "HOL-Library.List_Lexorder"
begin

section \<open>Bytes, slices and the PNG chunk scanner (clean\_images.py, lines 48--60)\<close>

text \<open>
  A Python \<^verbatim>\<open>bytes\<close> object is a list of 8-bit words. A chunk record is the pair
  \<^verbatim>\<open>(ctype, length)\<close> that \<^verbatim>\<open>analizar_png\<close> appends: the type decoded as Latin-1 text
  and the declared length, an unbounded non-negative Python integer.
\<close>

type_synonym byte = "8 word"
type_synonym chunk = "string \<times> nat"

text \<open>
  \<^verbatim>\<open>data[i:j]\<close> for non-negative \<^verbatim>\<open>i\<close>, \<^verbatim>\<open>j\<close>: Python clips both ends to the length of
  the sequence and never raises.
\<close>

definition py_slice :: "'a list \<Rightarrow> nat \<Rightarrow> nat \<Rightarrow> 'a list" where
  "py_slice xs i j = take (j - i) (drop i xs)"

text \<open>\<^verbatim>\<open>int.from_bytes(bs, "big")\<close>: the unsigned big-endian value; \<^verbatim>\<open>0\<close> for no bytes.\<close>

definition int_from_bytes_big :: "byte list \<Rightarrow> nat" where
  "int_from_bytes_big bs = foldl (\<lambda>acc b. acc * 256 + unat b) 0 bs"

text \<open>
  \<^verbatim>\<open>bs.decode("latin-1")\<close>: byte \<open>b\<close> becomes the character with code point \<open>b\<close>; it is
  defined on every byte.
\<close>

definition decode_latin1 :: "byte list \<Rightarrow> string" where
  "decode_latin1 bs = map (\<lambda>b. char_of (unat b)) bs"

text \<open>
  The \<^verbatim>\<open>while i < len(data)\<close> loop of lines 55--59, with the cursor \<open>i\<close> and the list
  \<open>chunks\<close> built so far as arguments.
\<close>

function analizar_png_loop :: "byte list \<Rightarrow> nat \<Rightarrow> chunk list \<Rightarrow> chunk list" where
  "analizar_png_loop data i chunks =
     (if i < length data then
        (let len = int_from_bytes_big (py_slice data i (i + 4));
             ctype = decode_latin1 (py_slice data (i + 4) (i + 8))
         in analizar_png_loop data (i + (12 + len)) (chunks @ [(ctype, len)]))
      else chunks)"
  by pat_completeness auto
termination
  by (relation "measure (\<lambda>(data, i, chunks). length data - i)") auto

declare analizar_png_loop.simps [simp del]

text \<open>Lines 50 and 54--60: the scan of a buffer that has been read, from cursor 8.\<close>

definition analizar_png_bytes :: "byte list \<Rightarrow> chunk list" where
  "analizar_png_bytes data = analizar_png_loop data 8 []"


section \<open>The layout of a well-formed chunk container\<close>

text \<open>
  The layout the scanner is checked against: after a signature, each segment is a 4-byte
  big-endian length field, a 4-byte type code, a payload of the declared length and a
  4-byte trailing checksum. These definitions describe the container format; the scanner
  above does not use them.
\<close>

record segment =
  len_field :: "byte list"
  type_code :: "byte list"
  payload :: "byte list"
  crc :: "byte list"

definition seg_bytes :: "segment \<Rightarrow> byte list" where
  "seg_bytes s = len_field s @ type_code s @ payload s @ crc s"

definition seg_ok :: "segment \<Rightarrow> bool" where
  "seg_ok s \<longleftrightarrow>
     length (len_field s) = 4 \<and> length (type_code s) = 4 \<and> length (crc s) = 4 \<and>
     int_from_bytes_big (len_field s) = length (payload s)"

definition seg_record :: "segment \<Rightarrow> chunk" where
  "seg_record s = (decode_latin1 (type_code s), length (payload s))"

definition container :: "byte list \<Rightarrow> segment list \<Rightarrow> byte list" where
  "container signature segs = signature @ concat (map seg_bytes segs)"

text \<open>
  The segment at cursor \<open>i\<close> is cut short: the cursor is inside the buffer, but the buffer
  ends before the \<open>12 + declared length\<close> bytes the segment claims.
\<close>

definition reads_past_end :: "byte list \<Rightarrow> nat \<Rightarrow> bool" where
  "reads_past_end data i \<longleftrightarrow>
     i < length data \<and> length data < i + (12 + int_from_bytes_big (py_slice data i (i + 4)))"

section \<open>Python values, paths and the file system\<close>

text \<open>
  An exception of class \<^verbatim>\<open>Exception\<close> is a value: an \<^verbatim>\<open>OSError\<close> of the file system or an
  error of the Pillow codec, each with its message \<^verbatim>\<open>str(e)\<close>. A function that can raise
  returns \<open>py_exn + 'a\<close>.
\<close>

datatype py_exn = OSError string | CodecError string

datatype pyval = PyNone | PyBool bool | PyInt int | PyBytes "byte list" | PyStr string

text \<open>\<^verbatim>\<open>d.get(k)\<close> on a dictionary: \<^verbatim>\<open>None\<close> when the key is absent.\<close>

definition dict_get :: "(string \<times> pyval) list \<Rightarrow> string \<Rightarrow> pyval" where
  "dict_get d k = (case map_of d k of None \<Rightarrow> PyNone | Some v \<Rightarrow> v)"

text \<open>
  A \<^verbatim>\<open>pathlib.Path\<close> is the list of its components below a fixed base directory; the empty
  list is the base itself (\<^verbatim>\<open>Path('.')\<close>), whose name is empty and whose parent is itself.
  \<^verbatim>\<open>suffix\<close> and \<^verbatim>\<open>stem\<close> follow pathlib: the suffix starts at the last dot of the name,
  unless that dot is the first or the last character.
\<close>

type_synonym path = "string list"

definition path_name :: "path \<Rightarrow> string" where
  "path_name p = (if p = [] then [] else last p)"

definition path_parent :: "path \<Rightarrow> path" where
  "path_parent p = butlast p"

fun rfind_dot :: "string \<Rightarrow> nat option" where
  "rfind_dot [] = None"
| "rfind_dot (c # cs) =
     (case rfind_dot cs of
        Some i \<Rightarrow> Some (Suc i)
      | None \<Rightarrow> if c = CHR ''.'' then Some 0 else None)"

definition path_suffix :: "path \<Rightarrow> string" where
  "path_suffix p =
     (let n = path_name p in
      case rfind_dot n of
        None \<Rightarrow> []
      | Some i \<Rightarrow> if 0 < i \<and> i < length n - 1 then drop i n else [])"

definition path_stem :: "path \<Rightarrow> string" where
  "path_stem p =
     (let n = path_name p in
      case rfind_dot n of
        None \<Rightarrow> n
      | Some i \<Rightarrow> if 0 < i \<and> i < length n - 1 then take i n else n)"

text \<open>
  \<^verbatim>\<open>str.lower()\<close> on names written in Latin-1: the ASCII capitals and the accented
  capitals \<^verbatim>\<open>U+00C0\<close>--\<^verbatim>\<open>U+00DE\<close> (but not the multiplication sign \<^verbatim>\<open>U+00D7\<close>) move up
  by 32.
\<close>

definition lower_char :: "char \<Rightarrow> char" where
  "lower_char c =
     (let n = (of_char c :: nat) in
      if (65 \<le> n \<and> n \<le> 90) \<or> (192 \<le> n \<and> n \<le> 222 \<and> n \<noteq> 215)
      then char_of (n + 32) else c)"

definition lower :: "string \<Rightarrow> string" where
  "lower s = map lower_char s"

text \<open>\<^verbatim>\<open>str(n)\<close> for a non-negative integer, used by \<^verbatim>\<open>f"Unknown-{tag_id}"\<close>.\<close>

fun str_nat :: "nat \<Rightarrow> string" where
  "str_nat n =
     (if n < 10 then [char_of (48 + n)]
      else str_nat (n div 10) @ [char_of (48 + n mod 10)])"

declare str_nat.simps [simp del]

text \<open>
  The file system is a finite table from paths to nodes, without links: a directory or a
  file with its bytes. An entry can be closed to the process (\<open>Locked_Dir\<close>, \<open>Locked_File\<close>):
  it exists and has its kind and its size, but reading, listing or writing it raises
  \<^verbatim>\<open>PermissionError\<close>. Every path can be resolved (search permission is not modelled).
\<close>

datatype node = Dir | File "byte list" | Locked_Dir | Locked_File "byte list"

type_synonym fs = "(path \<times> node) list"

definition path_exists :: "fs \<Rightarrow> path \<Rightarrow> bool" where
  "path_exists fs p = (map_of fs p \<noteq> None)"

definition is_dir :: "fs \<Rightarrow> path \<Rightarrow> bool" where
  "is_dir fs p = (map_of fs p = Some Dir \<or> map_of fs p = Some Locked_Dir)"

definition is_file :: "fs \<Rightarrow> path \<Rightarrow> bool" where
  "is_file fs p =
     (case map_of fs p of
        Some (File bs) \<Rightarrow> True
      | Some (Locked_File bs) \<Rightarrow> True
      | _ \<Rightarrow> False)"

text \<open>\<^verbatim>\<open>open(p, "rb").read()\<close>.\<close>

definition read_file :: "fs \<Rightarrow> path \<Rightarrow> py_exn + byte list" where
  "read_file fs p =
     (case map_of fs p of
        Some (File bs) \<Rightarrow> Inr bs
      | Some (Locked_File bs) \<Rightarrow> Inl (OSError ''Permission denied'')
      | Some Dir \<Rightarrow> Inl (OSError ''Is a directory'')
      | Some Locked_Dir \<Rightarrow> Inl (OSError ''Is a directory'')
      | None \<Rightarrow> Inl (OSError ''No such file or directory''))"

text \<open>
  \<^verbatim>\<open>os.path.getsize(p)\<close> needs no permission on the entry itself. The size the operating
  system reports for a directory is not modelled (\<open>0\<close> here); the program asks for the size
  of files only.
\<close>

definition getsize :: "fs \<Rightarrow> path \<Rightarrow> py_exn + nat" where
  "getsize fs p =
     (case map_of fs p of
        Some (File bs) \<Rightarrow> Inr (length bs)
      | Some (Locked_File bs) \<Rightarrow> Inr (length bs)
      | Some Dir \<Rightarrow> Inr 0
      | Some Locked_Dir \<Rightarrow> Inr 0
      | None \<Rightarrow> Inl (OSError ''No such file or directory''))"

text \<open>\<^verbatim>\<open>sorted(p.iterdir())\<close>: the entries whose parent is \<open>p\<close>, in the order of paths.\<close>

definition iterdir :: "fs \<Rightarrow> path \<Rightarrow> py_exn + path list" where
  "iterdir fs p =
     (case map_of fs p of
        Some Dir \<Rightarrow> Inr (filter (\<lambda>q. q \<noteq> [] \<and> path_parent q = p) (map fst fs))
      | Some Locked_Dir \<Rightarrow> Inl (OSError ''Permission denied'')
      | _ \<Rightarrow> Inl (OSError ''Not a directory''))"

text \<open>
  \<^verbatim>\<open>d.mkdir(parents=True, exist_ok=True)\<close>: every missing prefix of \<open>d\<close> becomes a
  directory; a prefix that exists as a file raises, and so does a missing prefix whose
  parent is closed. (Where the parent of every entry is a directory, a call that raises
  has created nothing.)
\<close>

fun mkdir_each :: "fs \<Rightarrow> path list \<Rightarrow> py_exn + fs" where
  "mkdir_each fs [] = Inr fs"
| "mkdir_each fs (d # ds) =
     (case map_of fs d of
        None \<Rightarrow>
          if map_of fs (path_parent d) = Some Locked_Dir
          then Inl (OSError ''Permission denied'')
          else mkdir_each (fs @ [(d, Dir)]) ds
      | Some Dir \<Rightarrow> mkdir_each fs ds
      | Some Locked_Dir \<Rightarrow> mkdir_each fs ds
      | Some (File bs) \<Rightarrow> Inl (OSError ''File exists'')
      | Some (Locked_File bs) \<Rightarrow> Inl (OSError ''File exists''))"

definition mkdir_parents :: "fs \<Rightarrow> path \<Rightarrow> py_exn + fs" where
  "mkdir_parents fs d = mkdir_each fs (map (\<lambda>k. take k d) [1 ..< Suc (length d)])"

text \<open>
  \<^verbatim>\<open>open(p, "w+b")\<close> followed by writing \<open>bs\<close>: the entry at that path alone is created or
  replaced. It raises when the path is a directory or a closed file, and when the file
  is new and its parent is not a directory or is closed.
\<close>

definition write_file :: "fs \<Rightarrow> path \<Rightarrow> byte list \<Rightarrow> py_exn + fs" where
  "write_file fs p bs =
     (case map_of fs p of
        Some Dir \<Rightarrow> Inl (OSError ''Is a directory'')
      | Some Locked_Dir \<Rightarrow> Inl (OSError ''Is a directory'')
      | Some (Locked_File old) \<Rightarrow> Inl (OSError ''Permission denied'')
      | Some (File old) \<Rightarrow> Inr (AList.update p (File bs) fs)
      | None \<Rightarrow>
          (case map_of fs (path_parent p) of
             Some Dir \<Rightarrow> Inr (AList.update p (File bs) fs)
           | Some Locked_Dir \<Rightarrow> Inl (OSError ''Permission denied'')
           | _ \<Rightarrow> Inl (OSError ''No such file or directory'')))"

text \<open>\<^verbatim>\<open>os.remove(p)\<close> of a file.\<close>

definition remove_file :: "fs \<Rightarrow> path \<Rightarrow> fs" where
  "remove_file fs p = AList.delete p fs"

text \<open>
  \<^verbatim>\<open>analizar_png(ruta)\<close>, lines 48--60: read the whole file, then scan it. Only the read
  can raise.
\<close>

definition analizar_png :: "fs \<Rightarrow> path \<Rightarrow> py_exn + chunk list" where
  "analizar_png fs ruta =
     (case read_file fs ruta of
        Inl e \<Rightarrow> Inl e
      | Inr data \<Rightarrow> Inr (analizar_png_bytes data))"

section \<open>Images and the Pillow operations the program calls\<close>

text \<open>
  A decoded image: its mode string (\<^verbatim>\<open>'P'\<close>, \<^verbatim>\<open>'RGB'\<close>, \<^verbatim>\<open>'RGBA'\<close>, \<^verbatim>\<open>'LA'\<close>, ...), its size,
  its samples and its \<^verbatim>\<open>info\<close> dictionary. The type of the samples is left open.
\<close>

record 'px image =
  mode :: string
  size_im :: "nat \<times> nat"
  pixels :: 'px
  info :: "(string \<times> pyval) list"

text \<open>The arguments of one call \<^verbatim>\<open>save_img.save(output_path, format, **params)\<close>.\<close>

record 'px save_call =
  save_img :: "'px image"
  save_path :: path
  save_format :: "string option"
  save_params :: "(string \<times> pyval) list"

text \<open>
  What the encoder behind \<^verbatim>\<open>save\<close> does with one call: it has no encoder for the format
  and raises before the target is opened, or it raises after writing some bytes, or it
  writes the whole encoding.
\<close>

datatype encoded = Refused py_exn | Broken py_exn "byte list" | Written "byte list"

text \<open>
  Pillow is not part of the program; what it computes is a parameter: decoding the bytes
  of a file (\<^verbatim>\<open>Image.open\<close> with \<^verbatim>\<open>load\<close>), reading the tag directory (\<^verbatim>\<open>getexif\<close>, as the
  list of its items) and serialising it (\<^verbatim>\<open>tobytes\<close>), the table \<^verbatim>\<open>ExifTags.TAGS\<close>, the
  conversion of an image to a mode, the samples of a new blank image, and the encoder
  behind \<^verbatim>\<open>save\<close>. Decoding, reading tags, serialising and encoding may raise.
\<close>

record ('px, 'v) pil =
  pil_open :: "byte list \<Rightarrow> py_exn + 'px image"
  pil_getexif :: "byte list \<Rightarrow> py_exn + (nat \<times> 'v) list"
  pil_tobytes :: "(nat \<times> 'v) list \<Rightarrow> py_exn + byte list"
  pil_TAGS :: "nat \<Rightarrow> string option"
  pil_convert :: "string \<Rightarrow> 'px image \<Rightarrow> 'px image"
  pil_blank :: "string \<Rightarrow> nat \<times> nat \<Rightarrow> 'px"
  pil_encode :: "'px save_call \<Rightarrow> encoded"

text \<open>\<^verbatim>\<open>Image.open(p)\<close> followed by \<^verbatim>\<open>img.load()\<close>: read the file, then decode it.\<close>

definition open_image :: "('px, 'v) pil \<Rightarrow> fs \<Rightarrow> path \<Rightarrow> py_exn + 'px image" where
  "open_image pil fs p =
     (case read_file fs p of Inl e \<Rightarrow> Inl e | Inr bs \<Rightarrow> pil_open pil bs)"

text \<open>\<^verbatim>\<open>Image.open(p)\<close> followed by \<^verbatim>\<open>img.getexif()\<close>.\<close>

definition open_exif :: "('px, 'v) pil \<Rightarrow> fs \<Rightarrow> path \<Rightarrow> py_exn + (nat \<times> 'v) list" where
  "open_exif pil fs p =
     (case read_file fs p of Inl e \<Rightarrow> Inl e | Inr bs \<Rightarrow> pil_getexif pil bs)"

text \<open>
  \<^verbatim>\<open>img.convert(m)\<close> returns an image of mode \<open>m\<close> and of the same size;
  \<^verbatim>\<open>Image.new(m, size)\<close> is a blank image with an empty \<^verbatim>\<open>info\<close>; \<^verbatim>\<open>dst.paste(src)\<close> with
  an image of the same mode and size overwrites the samples of \<open>dst\<close> and nothing else.
\<close>

definition convert :: "('px, 'v) pil \<Rightarrow> string \<Rightarrow> 'px image \<Rightarrow> 'px image" where
  "convert pil m img = (pil_convert pil m img)\<lparr>mode := m, size_im := size_im img\<rparr>"

definition new_image :: "('px, 'v) pil \<Rightarrow> string \<Rightarrow> nat \<times> nat \<Rightarrow> 'px image" where
  "new_image pil m sz = \<lparr>mode = m, size_im = sz, pixels = pil_blank pil m sz, info = []\<rparr>"

definition paste :: "'px image \<Rightarrow> 'px image \<Rightarrow> 'px image" where
  "paste dst src = dst\<lparr>pixels := pixels src\<rparr>"

text \<open>
  \<^verbatim>\<open>img.save(path, format, **params)\<close>. Pillow first finds the encoder of the format, then
  opens the path with \<^verbatim>\<open>"w+b"\<close>, which creates the file or empties it, and only then runs
  the encoder on the open file. So an error of opening the target comes before any error
  of encoding; and when the encoder raises, a file that existed keeps what was written
  so far, while a file that this call created is removed again. The result is the
  exception raised, if any, and the file system left behind.
\<close>

definition save :: "('px, 'v) pil \<Rightarrow> 'px save_call \<Rightarrow> fs \<Rightarrow> py_exn option \<times> fs" where
  "save pil call fs =
     (case pil_encode pil call of
        Refused e \<Rightarrow> (Some e, fs)
      | Written bs \<Rightarrow>
          (case write_file fs (save_path call) bs of
             Inl e \<Rightarrow> (Some e, fs)
           | Inr fs' \<Rightarrow> (None, fs'))
      | Broken e bs \<Rightarrow>
          (case write_file fs (save_path call) bs of
             Inl e' \<Rightarrow> (Some e', fs)
           | Inr fs' \<Rightarrow>
               (Some e, if path_exists fs (save_path call) then fs'
                        else remove_file fs' (save_path call))))"

section \<open>What the program prints\<close>

text \<open>
  One constructor for each \<^verbatim>\<open>print\<close> of the program, with the values it formats (the
  source line in the comment). Sizes are kept in bytes: lines 68, 76, 89 and 101
  print them divided by 1024 with one decimal.
\<close>

datatype 'v msg =
    ReportHeader string nat \<comment> \<open>lines 68 and 89: file name, total size\<close>
  | Conservado string nat \<comment> \<open>line 72: chunk type, length\<close>
  | Eliminado string nat \<comment> \<open>line 74: chunk type, length\<close>
  | AhorroEstimado nat \<comment> \<open>lines 76 and 101: estimated saving\<close>
  | NoExif \<comment> \<open>line 91\<close>
  | ExifEncontrado \<comment> \<open>line 94\<close>
  | TagLine string 'v \<comment> \<open>line 97: tag name, value\<close>
  | NoSePudoLeerExif string py_exn \<comment> \<open>line 104: file name, exception\<close>
  | Cleaned string string \<comment> \<open>line 144: file name, output name\<close>
  | ErrorProcesando string py_exn \<comment> \<open>line 147: file name, exception\<close>
  | PathDoesNotExist path \<comment> \<open>line 182\<close>
  | ProcessingDirectory path \<comment> \<open>line 186\<close>
  | SinMetadatos string \<comment> \<open>lines 197 and 211: file name\<close>
  | NoSupportedImages \<comment> \<open>line 201\<close>
  | SkippingUnsupported string \<comment> \<open>line 215: file name\<close>

text \<open>The state of a run: the file system and what has been printed so far.\<close>

type_synonym 'v st = "fs \<times> 'v msg list"

definition print :: "'v msg \<Rightarrow> 'v st \<Rightarrow> 'v st" where
  "print m s = (fst s, snd s @ [m])"

section \<open>The PNG report (lines 63--76)\<close>

text \<open>The \<^verbatim>\<open>for ctype, length in chunks\<close> loop, with the lines printed and \<^verbatim>\<open>eliminado\<close>.\<close>

fun reporte_png_loop :: "chunk list \<Rightarrow> 'v msg list \<Rightarrow> nat \<Rightarrow> 'v msg list \<times> nat" where
  "reporte_png_loop [] out eliminado = (out, eliminado)"
| "reporte_png_loop ((ctype, len) # chunks) out eliminado =
     (if ctype \<in> set [''IHDR'', ''IDAT'', ''IEND'']
      then reporte_png_loop chunks (out @ [Conservado ctype len]) eliminado
      else reporte_png_loop chunks (out @ [Eliminado ctype len]) (eliminado + len))"

text \<open>
  A function that can raise returns the exception that ended it, if any, with the state
  at that point.
\<close>

definition reporte_png :: "path \<Rightarrow> 'v st \<Rightarrow> py_exn option \<times> 'v st" where
  "reporte_png image_path s =
     (case analizar_png (fst s) image_path of
        Inl e \<Rightarrow> (Some e, s)
      | Inr chunks \<Rightarrow>
          (case getsize (fst s) image_path of
             Inl e \<Rightarrow> (Some e, s)
           | Inr total_size \<Rightarrow>
               (let s1 = print (ReportHeader (path_name image_path) total_size) s;
                    (out, eliminado) = reporte_png_loop chunks (snd s1) 0
                in (None, print (AhorroEstimado eliminado) (fst s1, out)))))"

section \<open>The tag report (lines 82--104)\<close>

text \<open>Line 96: \<^verbatim>\<open>ExifTags.TAGS.get(tag_id, f"Unknown-{tag_id}")\<close>.\<close>

definition tag_name :: "('px, 'v) pil \<Rightarrow> nat \<Rightarrow> string" where
  "tag_name pil tag_id =
     (case pil_TAGS pil tag_id of Some n \<Rightarrow> n | None \<Rightarrow> ''Unknown-'' @ str_nat tag_id)"

text \<open>The \<^verbatim>\<open>for tag_id, value in exif_data.items()\<close> loop of lines 95--97.\<close>

fun exif_loop :: "('px, 'v) pil \<Rightarrow> (nat \<times> 'v) list \<Rightarrow> 'v st \<Rightarrow> 'v st" where
  "exif_loop pil [] s = s"
| "exif_loop pil ((tag_id, val) # items) s =
     exif_loop pil items (print (TagLine (tag_name pil tag_id) val) s)"

text \<open>
  \<^verbatim>\<open>getsize\<close> is called before the \<^verbatim>\<open>try\<close>; everything else is inside it, and the handler of
  line 103 prints the exception.
\<close>

definition reporte_exif :: "('px, 'v) pil \<Rightarrow> path \<Rightarrow> 'v st \<Rightarrow> py_exn option \<times> 'v st" where
  "reporte_exif pil image_path s =
     (case getsize (fst s) image_path of
        Inl e \<Rightarrow> (Some e, s)
      | Inr total_size \<Rightarrow>
          (None,
           case open_exif pil (fst s) image_path of
             Inl e \<Rightarrow> print (NoSePudoLeerExif (path_name image_path) e) s
           | Inr exif_data \<Rightarrow>
               (let s1 = print (ReportHeader (path_name image_path) total_size) s in
                if exif_data = [] then print NoExif s1
                else
                  (let s2 = exif_loop pil exif_data (print ExifEncontrado s1) in
                   case pil_tobytes pil exif_data of
                     Inl e \<Rightarrow> print (NoSePudoLeerExif (path_name image_path) e) s2
                   | Inr raw_exif \<Rightarrow> print (AhorroEstimado (length raw_exif)) s2))))"

section \<open>Cleaning (lines 110--147)\<close>

text \<open>Lines 113--117: the output path. A \<^verbatim>\<open>Path\<close> is always true, so the test is on \<^verbatim>\<open>None\<close>.\<close>

definition output_path_of :: "path \<Rightarrow> path option \<Rightarrow> path" where
  "output_path_of image_path output_dir =
     (case output_dir of
        Some d \<Rightarrow> d @ [path_stem image_path @ ''_clean'' @ path_suffix image_path]
      | None \<Rightarrow>
          path_parent image_path @ [path_stem image_path @ ''_clean'' @ path_suffix image_path])"

text \<open>Lines 122--129: \<^verbatim>\<open>img_converted\<close>.\<close>

definition resolve_mode :: "('px, 'v) pil \<Rightarrow> 'px image \<Rightarrow> 'px image" where
  "resolve_mode pil img =
     (if mode img = ''P'' then
        (let target_mode =
               (if dict_get (info img) ''transparency'' \<noteq> PyNone then ''RGBA'' else ''RGB'')
         in convert pil target_mode img)
      else img)"

text \<open>Lines 131--132: \<^verbatim>\<open>clean_img\<close>, a new image that receives the samples.\<close>

definition reconstruct :: "('px, 'v) pil \<Rightarrow> 'px image \<Rightarrow> 'px image" where
  "reconstruct pil img =
     (let img_converted = resolve_mode pil img;
          clean_img = new_image pil (mode img_converted) (size_im img_converted)
      in paste clean_img img_converted)"

text \<open>Lines 134--142: the image that is saved and the arguments of \<^verbatim>\<open>save\<close>.\<close>

definition finalize ::
  "('px, 'v) pil \<Rightarrow> path \<Rightarrow> path \<Rightarrow> 'px image \<Rightarrow> 'px save_call" where
  "finalize pil image_path output_path clean_img =
     (if lower (path_suffix image_path) \<in> set [''.jpg'', ''.jpeg''] then
        \<lparr>save_img = (if mode clean_img \<in> set [''RGBA'', ''LA'', ''P'']
                     then convert pil ''RGB'' clean_img else clean_img),
         save_path = output_path,
         save_format = Some ''JPEG'',
         save_params = [(''quality'', PyInt 95), (''optimize'', PyBool True)]\<rparr>
      else
        \<lparr>save_img = clean_img, save_path = output_path,
         save_format = None, save_params = []\<rparr>)"

text \<open>
  The body of the \<^verbatim>\<open>try\<close> of lines 113--144, up to the \<^verbatim>\<open>print\<close> of line 144: the exception
  that left it, if any, and the file system at that point.
\<close>

definition clean_body ::
  "('px, 'v) pil \<Rightarrow> path \<Rightarrow> path option \<Rightarrow> fs \<Rightarrow> py_exn option \<times> fs" where
  "clean_body pil image_path output_dir fs =
     (case (case output_dir of Some d \<Rightarrow> mkdir_parents fs d | None \<Rightarrow> Inr fs) of
        Inl e \<Rightarrow> (Some e, fs)
      | Inr fs1 \<Rightarrow>
          (let output_path = output_path_of image_path output_dir in
           case open_image pil fs1 image_path of
             Inl e \<Rightarrow> (Some e, fs1)
           | Inr img \<Rightarrow>
               save pil (finalize pil image_path output_path (reconstruct pil img)) fs1))"

text \<open>\<^verbatim>\<open>clean_image_metadata\<close>: the handler of line 146 catches every exception of the body.\<close>

definition clean_image_metadata ::
  "('px, 'v) pil \<Rightarrow> path \<Rightarrow> path option \<Rightarrow> 'v st \<Rightarrow> 'v st" where
  "clean_image_metadata pil image_path output_dir s =
     (case clean_body pil image_path output_dir (fst s) of
        (None, fs') \<Rightarrow>
          (fs', snd s @ [Cleaned (path_name image_path)
                           (path_name (output_path_of image_path output_dir))])
      | (Some e, fs') \<Rightarrow> (fs', snd s @ [ErrorProcesando (path_name image_path) e]))"

section \<open>The main loop (lines 153--215)\<close>

definition SUPPORTED_EXTENSIONS :: "string list" where
  "SUPPORTED_EXTENSIONS = [''.jpg'', ''.jpeg'', ''.png'', ''.tiff'', ''.tif'', ''.bmp'', ''.gif'']"

record args =
  input :: "path list"
  output_dir :: "path option"
  report :: bool

text \<open>
  Lines 191--199 and lines 205--213 are the same statements, on \<^verbatim>\<open>item\<close> and on
  \<^verbatim>\<open>input_path\<close>: report or clean one supported image.
\<close>

definition handle_image ::
  "('px, 'v) pil \<Rightarrow> args \<Rightarrow> path \<Rightarrow> 'v st \<Rightarrow> py_exn option \<times> 'v st" where
  "handle_image pil a item s =
     (if report a then
        (if lower (path_suffix item) = ''.png'' then reporte_png item s
         else if lower (path_suffix item) \<in> set [''.jpg'', ''.jpeg'', ''.tiff'', ''.tif'']
           then reporte_exif pil item s
         else (None, print (SinMetadatos (path_name item)) s))
      else (None, clean_image_metadata pil item (output_dir a) s))"

text \<open>The loop of lines 188--199 over the sorted entries, with the flag \<^verbatim>\<open>found_images\<close>.\<close>

fun dir_loop ::
  "('px, 'v) pil \<Rightarrow> args \<Rightarrow> path list \<Rightarrow> bool \<Rightarrow> 'v st \<Rightarrow> py_exn option \<times> bool \<times> 'v st" where
  "dir_loop pil a [] found_images s = (None, found_images, s)"
| "dir_loop pil a (item # items) found_images s =
     (if is_file (fst s) item \<and> lower (path_suffix item) \<in> set SUPPORTED_EXTENSIONS then
        (case handle_image pil a item s of
           (Some e, s') \<Rightarrow> (Some e, True, s')
         | (None, s') \<Rightarrow> dir_loop pil a items True s')
      else dir_loop pil a items found_images s)"

text \<open>The loop of lines 178--215 over the inputs; an exception that nothing catches ends it.\<close>

fun main_loop ::
  "('px, 'v) pil \<Rightarrow> args \<Rightarrow> path list \<Rightarrow> 'v st \<Rightarrow> py_exn option \<times> 'v st" where
  "main_loop pil a [] s = (None, s)"
| "main_loop pil a (input_path # rest) s =
     (if \<not> path_exists (fst s) input_path then
        main_loop pil a rest (print (PathDoesNotExist input_path) s)
      else if is_dir (fst s) input_path then
        (let s1 = print (ProcessingDirectory input_path) s in
         case iterdir (fst s1) input_path of
           Inl e \<Rightarrow> (Some e, s1)
         | Inr items \<Rightarrow>
             (case dir_loop pil a (sort items) False s1 of
                (Some e, found_images, s2) \<Rightarrow> (Some e, s2)
              | (None, found_images, s2) \<Rightarrow>
                  main_loop pil a rest
                    (if \<not> found_images then print NoSupportedImages s2 else s2)))
      else if is_file (fst s) input_path then
        (if lower (path_suffix input_path) \<in> set SUPPORTED_EXTENSIONS then
           (case handle_image pil a input_path s of
              (Some e, s') \<Rightarrow> (Some e, s')
            | (None, s') \<Rightarrow> main_loop pil a rest s')
         else main_loop pil a rest (print (SkippingUnsupported (path_name input_path)) s))
      else main_loop pil a rest s)"

definition main :: "('px, 'v) pil \<Rightarrow> args \<Rightarrow> fs \<Rightarrow> py_exn option \<times> 'v st" where
  "main pil a fs = main_loop pil a (input a) (fs, [])"

section \<open>Concrete inputs\<close>

text \<open>
  The PNG signature; the five segments \<^verbatim>\<open>IHDR\<close> (13 bytes), \<^verbatim>\<open>tEXt\<close> (40), \<^verbatim>\<open>IDAT\<close> (5000),
  \<^verbatim>\<open>tIME\<close> (7) and \<^verbatim>\<open>IEND\<close> (0), with zero payloads and checksums (the scanner reads
  neither); and a file that ends five bytes into the payload of a \<^verbatim>\<open>tEXt\<close> segment
  declaring 40.
\<close>

definition png_signature :: "byte list" where
  "png_signature = [137, 80, 78, 71, 13, 10, 26, 10]"

definition seg_IHDR :: segment where
  "seg_IHDR = \<lparr>len_field = [0, 0, 0, 13], type_code = [73, 72, 68, 82],
                payload = replicate 13 0, crc = [0, 0, 0, 0]\<rparr>"

definition seg_tEXt :: segment where
  "seg_tEXt = \<lparr>len_field = [0, 0, 0, 40], type_code = [116, 69, 88, 116],
                payload = replicate 40 0, crc = [0, 0, 0, 0]\<rparr>"

definition seg_IDAT :: segment where
  "seg_IDAT = \<lparr>len_field = [0, 0, 19, 136], type_code = [73, 68, 65, 84],
                payload = replicate 5000 0, crc = [0, 0, 0, 0]\<rparr>"

definition seg_tIME :: segment where
  "seg_tIME = \<lparr>len_field = [0, 0, 0, 7], type_code = [116, 73, 77, 69],
                payload = replicate 7 0, crc = [0, 0, 0, 0]\<rparr>"

definition seg_IEND :: segment where
  "seg_IEND = \<lparr>len_field = [0, 0, 0, 0], type_code = [73, 69, 78, 68],
                payload = [], crc = [0, 0, 0, 0]\<rparr>"

definition scenario_a :: "segment list" where
  "scenario_a = [seg_IHDR, seg_tEXt, seg_IDAT, seg_tIME, seg_IEND]"

definition cut_tail :: "byte list" where
  "cut_tail = [0, 0, 0, 40, 116, 69, 88, 116, 1, 2, 3, 4, 5]"

definition truncated_png :: "byte list" where
  "truncated_png = container png_signature [seg_IHDR] @ cut_tail"

text \<open>
  A stand-in for Pillow, for concrete runs: it decodes every file that starts with the
  PNG signature as a 1 x 1 palette image with a transparency entry and rejects every
  other file; every file has the same twelve tags, three of them without a name in the
  table, which serialise to 312 bytes; the encoder raises on a path that ends in \<^verbatim>\<open>.gif\<close>,
  after writing three bytes, and writes the signature otherwise.
\<close>

definition example_exif :: "(nat \<times> string) list" where
  "example_exif =
     [(271, ''Canon''), (272, ''EOS''), (274, ''1''), (282, ''72''), (283, ''72''),
      (296, ''2''), (305, ''GIMP''), (306, ''2020:01:01''), (531, ''1''),
      (59932, ''pad''), (59933, ''x''), (60000, ''y'')]"

definition example_pil :: "(nat list, string) pil" where
  "example_pil =
     \<lparr>pil_open = (\<lambda>bs. if take 8 bs = png_signature
          then Inr \<lparr>mode = ''P'', size_im = (1, 1), pixels = [7],
                    info = [(''transparency'', PyInt 0)]\<rparr>
          else Inl (CodecError ''cannot identify image file'')),
      pil_getexif = (\<lambda>bs. Inr example_exif),
      pil_tobytes = (\<lambda>items. Inr (replicate (26 * length items) 0)),
      pil_TAGS = map_of [(271, ''Make''), (272, ''Model''), (274, ''Orientation''),
          (282, ''XResolution''), (283, ''YResolution''), (296, ''ResolutionUnit''),
          (305, ''Software''), (306, ''DateTime''), (531, ''YCbCrPositioning'')],
      pil_convert = (\<lambda>m img. img),
      pil_blank = (\<lambda>m sz. []),
      pil_encode = (\<lambda>call. if path_suffix (save_path call) = ''.gif''
          then Broken (CodecError ''encoder error'') [71, 73, 70] else Written png_signature)\<rparr>"

definition example_image :: "nat list image" where
  "example_image =
     \<lparr>mode = ''P'', size_im = (1, 1), pixels = [7], info = [(''transparency'', PyInt 0)]\<rparr>"

text \<open>
  A directory with a file that is no image, two files that decode, a PNG file, a JPEG file
  and a directory that are closed to the process, and no entry for \<^verbatim>\<open>gone.png\<close>; and a run
  that cleans four of the paths beside their sources.
\<close>

definition example_fs :: fs where
  "example_fs =
     [([], Dir), ([''anim.gif''], File (png_signature @ [9])),
      ([''bad.jpg''], File [1, 2, 3]),
      ([''locked.jpg''], Locked_File [1, 2, 3]),
      ([''locked.png''], Locked_File (container png_signature [seg_IEND])),
      ([''logo.png''], File (container png_signature [seg_IEND])),
      ([''vault''], Locked_Dir)]"

definition example_args :: args where
  "example_args =
     \<lparr>input = [[''gone.png''], [''bad.jpg''], [''anim.gif''], [''logo.png'']],
      output_dir = None, report = False\<rparr>"
section \<open>Properties of slices and of the big-endian decoder\<close>



lemma py_slice_middle: "py_slice (xs @ ys @ zs) (length xs) (length xs + length ys) = ys"
  by (simp add: py_slice_def)

lemma py_slice_shift: "py_slice (xs @ ys) (length xs + a) (length xs + b) = py_slice ys a b"
  by (simp add: py_slice_def)



section \<open>Properties of the scanner loop\<close>

lemma loop_total: "All analizar_png_loop_dom"
proof -
  have "wfp analizar_png_loop_rel"
  proof (rule wfp_if_convertible_to_nat)
    fix x y :: "byte list \<times> nat \<times> chunk list"
    assume "analizar_png_loop_rel x y"
    then show "(case x of (data, i, chunks) \<Rightarrow> length data - i)
                 < (case y of (data, i, chunks) \<Rightarrow> length data - i)"
      by (rule analizar_png_loop_rel.cases) auto
  qed
  then show ?thesis
    by (simp add: wfp_iff_accp)
qed

lemma loop_stop: "length data \<le> i \<Longrightarrow> analizar_png_loop data i chunks = chunks"
  by (simp add: analizar_png_loop.simps)

lemma loop_step:
  "i < length data \<Longrightarrow>
   analizar_png_loop data i chunks =
     analizar_png_loop data (i + (12 + int_from_bytes_big (py_slice data i (i + 4))))
       (chunks @ [(decode_latin1 (py_slice data (i + 4) (i + 8)),
                   int_from_bytes_big (py_slice data i (i + 4)))])"
  by (subst analizar_png_loop.simps) (simp add: Let_def)

lemma loop_count:
  "length (analizar_png_loop data i chunks) \<le> length chunks + (length data - i + 11) div 12"
proof (induction data i chunks rule: analizar_png_loop.induct)
  case (1 data i chunks)
  show ?case
  proof (cases "i < length data")
    case True
    let ?len = "int_from_bytes_big (py_slice data i (i + 4))"
    let ?ctype = "decode_latin1 (py_slice data (i + 4) (i + 8))"
    have "length (analizar_png_loop data (i + (12 + ?len)) (chunks @ [(?ctype, ?len)]))
            \<le> length (chunks @ [(?ctype, ?len)]) + (length data - (i + (12 + ?len)) + 11) div 12"
      using "1.IH" [OF True refl refl] .
    moreover have "Suc ((length data - (i + (12 + ?len)) + 11) div 12)
                     \<le> (length data - i + 11) div 12"
      using True by (cases "i + (12 + ?len) \<le> length data") simp_all
    ultimately show ?thesis
      using True by (simp add: loop_step)
  next
    case False
    then show ?thesis by (simp add: loop_stop)
  qed
qed

lemma seg_bytes_length:
  "seg_ok s \<Longrightarrow> length (seg_bytes s) = 12 + length (payload s)"
  by (simp add: seg_ok_def seg_bytes_def)

lemma loop_segments:
  "list_all seg_ok segs \<Longrightarrow>
   analizar_png_loop (pre @ concat (map seg_bytes segs) @ rest) (length pre) acc =
   analizar_png_loop (pre @ concat (map seg_bytes segs) @ rest)
     (length pre + length (concat (map seg_bytes segs))) (acc @ map seg_record segs)"
proof (induction segs arbitrary: pre acc)
  case Nil
  show ?case by simp
next
  case (Cons s segs)
  let ?more = "concat (map seg_bytes segs) @ rest"
  let ?data = "pre @ seg_bytes s @ ?more"
  from Cons.prems have ok: "seg_ok s" and oks: "list_all seg_ok segs"
    by simp_all
  have inside: "length pre < length ?data"
    using ok by (simp add: seg_bytes_length)
  have "py_slice (pre @ len_field s @ (type_code s @ payload s @ crc s @ ?more))
          (length pre) (length pre + length (len_field s)) = len_field s"
    by (rule py_slice_middle)
  then have lf: "py_slice ?data (length pre) (length pre + 4) = len_field s"
    using ok by (simp add: seg_bytes_def seg_ok_def)
  have tc: "py_slice ?data (length pre + 4) (length pre + 8) = type_code s"
    using ok by (simp add: py_slice_def seg_bytes_def seg_ok_def)
  have "analizar_png_loop ?data (length pre) acc =
        analizar_png_loop ?data (length pre + (12 + length (payload s))) (acc @ [seg_record s])"
    using ok by (simp add: loop_step [OF inside] lf tc seg_record_def seg_ok_def)
  also have "\<dots> = analizar_png_loop ((pre @ seg_bytes s) @ ?more) (length (pre @ seg_bytes s))
                     (acc @ [seg_record s])"
    using ok by (simp add: seg_bytes_length)
  also have "\<dots> = analizar_png_loop ((pre @ seg_bytes s) @ ?more)
                     (length (pre @ seg_bytes s) + length (concat (map seg_bytes segs)))
                     ((acc @ [seg_record s]) @ map seg_record segs)"
    using Cons.IH [OF oks, of "pre @ seg_bytes s" "acc @ [seg_record s]"] .
  finally show ?case
    by (simp add: add.assoc)
qed

lemma sum_seg_records:
  "list_all seg_ok segs \<Longrightarrow>
   (\<Sum>(ctype, len) \<leftarrow> map seg_record segs. len + 12) = length (concat (map seg_bytes segs))"
  by (induction segs) (simp_all add: seg_record_def seg_bytes_length)

lemma scan_container:
  "list_all seg_ok segs \<Longrightarrow>
   analizar_png_loop (container signature segs) (length signature) [] = map seg_record segs"
  using loop_segments [of segs signature "[]" "[]"]
  by (simp add: container_def loop_stop)
lemma loop_last_record:
  "reads_past_end data i \<Longrightarrow>
   analizar_png_loop data i chunks =
     chunks @ [(decode_latin1 (py_slice data (i + 4) (i + 8)),
                int_from_bytes_big (py_slice data i (i + 4)))]"
  by (simp add: reads_past_end_def loop_step loop_stop)

lemma scan_truncated:
  assumes sig: "length signature = 8" and oks: "list_all seg_ok segs"
    and cut: "tail \<noteq> []" "length tail < 12 + int_from_bytes_big (py_slice tail 0 4)"
  shows "analizar_png_bytes (container signature segs @ tail) =
           map seg_record segs @
             [(decode_latin1 (py_slice tail 4 8), int_from_bytes_big (py_slice tail 0 4))]"
proof -
  let ?data = "container signature segs @ tail"
  let ?n = "length (container signature segs)"
  have shift: "py_slice ?data (?n + a) (?n + b) = py_slice tail a b" for a b
    by (rule py_slice_shift)
  have len: "py_slice ?data ?n (?n + 4) = py_slice tail 0 4"
    using shift [of 0 4] by simp
  have tcode: "py_slice ?data (?n + 4) (?n + 8) = py_slice tail 4 8"
    by (rule shift)
  have past: "reads_past_end ?data ?n"
    using cut by (simp add: reads_past_end_def len)
  have "analizar_png_bytes ?data =
          analizar_png_loop (signature @ concat (map seg_bytes segs) @ tail) (length signature) []"
    using sig by (simp add: analizar_png_bytes_def container_def)
  also have "\<dots> = analizar_png_loop (signature @ concat (map seg_bytes segs) @ tail)
                     (length signature + length (concat (map seg_bytes segs)))
                     ([] @ map seg_record segs)"
    by (rule loop_segments [OF oks])
  also have "\<dots> = analizar_png_loop ?data ?n (map seg_record segs)"
    by (simp add: container_def)
  also have "\<dots> = map seg_record segs @
                     [(decode_latin1 (py_slice ?data (?n + 4) (?n + 8)),
                       int_from_bytes_big (py_slice ?data ?n (?n + 4)))]"
    by (rule loop_last_record [OF past])
  finally show ?thesis
    by (simp only: len tcode)
qed

lemma seg_ok_examples:
  "seg_ok seg_IHDR" "seg_ok seg_tEXt" "seg_ok seg_IDAT" "seg_ok seg_tIME" "seg_ok seg_IEND"
  by (simp_all add: seg_ok_def int_from_bytes_big_def
        seg_IHDR_def seg_tEXt_def seg_IDAT_def seg_tIME_def seg_IEND_def)

lemma seg_record_examples:
  "seg_record seg_IHDR = (''IHDR'', 13)" "seg_record seg_tEXt = (''tEXt'', 40)"
  "seg_record seg_IDAT = (''IDAT'', 5000)" "seg_record seg_tIME = (''tIME'', 7)"
  "seg_record seg_IEND = (''IEND'', 0)"
  by (simp_all add: seg_record_def decode_latin1_def char_of_eq_iff
        seg_IHDR_def seg_tEXt_def seg_IDAT_def seg_tIME_def seg_IEND_def)

lemma cut_tail_fields:
  "cut_tail \<noteq> []" "length cut_tail = 13"
  "int_from_bytes_big (py_slice cut_tail 0 4) = 40"
  "decode_latin1 (py_slice cut_tail 4 8) = ''tEXt''"
  by (simp_all add: cut_tail_def py_slice_def int_from_bytes_big_def decode_latin1_def
        char_of_eq_iff)

lemma length_truncated_png: "length truncated_png = 46"
  by (simp add: truncated_png_def container_def png_signature_def cut_tail_def
        seg_bytes_length [OF seg_ok_examples(1)]) (simp add: seg_IHDR_def)

lemma length_scenario_a: "length (container png_signature scenario_a) = 5128"
  by (simp add: container_def scenario_a_def png_signature_def seg_bytes_def
        seg_IHDR_def seg_tEXt_def seg_IDAT_def seg_tIME_def seg_IEND_def)

lemma truncated_png_cursor:
  "py_slice truncated_png 33 37 = py_slice cut_tail 0 4"
  "py_slice truncated_png 37 41 = py_slice cut_tail 4 8"
proof -
  have n: "length (container png_signature [seg_IHDR]) = 33"
    by (simp add: container_def png_signature_def seg_bytes_length [OF seg_ok_examples(1)])
       (simp add: seg_IHDR_def)
  show "py_slice truncated_png 33 37 = py_slice cut_tail 0 4"
    using py_slice_shift [of "container png_signature [seg_IHDR]" cut_tail 0 4]
    by (simp add: n truncated_png_def)
  show "py_slice truncated_png 37 41 = py_slice cut_tail 4 8"
    using py_slice_shift [of "container png_signature [seg_IHDR]" cut_tail 4 8]
    by (simp add: n truncated_png_def)
qed

lemma truncated_png_past_end: "reads_past_end truncated_png 33"
  by (simp add: reads_past_end_def length_truncated_png truncated_png_cursor cut_tail_fields)

section \<open>The claims about the chunk scanner\<close>

text \<open>
  C7. For every well-formed chunk container (a signature of 8 bytes followed by segments
  that tile the rest of the buffer, each with a 4-byte length field holding the length of
  its payload, a 4-byte type and a 4-byte checksum), the scanner returns one record per
  segment, and the sum of declared length + 12 over the records, plus the 8 bytes of the
  signature, is the size of the container.
\<close>

theorem C7_round_trip_coverage:
  "length signature = 8 \<Longrightarrow> list_all seg_ok segs \<Longrightarrow>
   analizar_png_bytes (container signature segs) = map seg_record segs \<and>
   (\<Sum>(ctype, len) \<leftarrow> analizar_png_bytes (container signature segs). len + 12) + 8
     = length (container signature segs)"
proof -
  assume sig: "length signature = 8" and oks: "list_all seg_ok segs"
  have scan: "analizar_png_bytes (container signature segs) = map seg_record segs"
    using scan_container [OF oks, of signature] sig by (simp add: analizar_png_bytes_def)
  have "(\<Sum>(ctype, len) \<leftarrow> map seg_record segs. len + 12) + 8
          = length (container signature segs)"
    using sum_seg_records [OF oks] sig by (simp add: container_def)
  with scan show ?thesis
    by simp
qed

theorem C7_round_trip_coverage_witness:
  "length png_signature = 8 \<and> list_all seg_ok scenario_a \<and>
   analizar_png_bytes (container png_signature scenario_a) =
     [(''IHDR'', 13), (''tEXt'', 40), (''IDAT'', 5000), (''tIME'', 7), (''IEND'', 0)] \<and>
   (\<Sum>(ctype, len) \<leftarrow> analizar_png_bytes (container png_signature scenario_a). len + 12) + 8
     = length (container png_signature scenario_a)"
proof -
  have sig: "length png_signature = 8"
    by (simp add: png_signature_def)
  have oks: "list_all seg_ok scenario_a"
    by (simp add: scenario_a_def seg_ok_examples)
  show ?thesis
    using C7_round_trip_coverage [OF sig oks] sig oks
    by (simp add: length_scenario_a) (simp add: scenario_a_def seg_record_examples)
qed



text \<open>
  C9. The scanner terminates on every buffer: the loop is defined for every buffer, cursor
  and list of records; an iteration moves the cursor forward by 12 + declared length,
  at least 12; so from cursor \<open>i\<close> it runs at most \<open>(length data - i + 11) div 12\<close> times,
  adding one record each time.
\<close>

theorem C9_scanner_terminates:
  "analizar_png_loop_dom (data, i, chunks) \<and>
   i + 12 \<le> i + (12 + int_from_bytes_big (py_slice data i (i + 4))) \<and>
   length (analizar_png_loop data i chunks)
     \<le> length chunks + (length data - i + 11) div 12"
  using loop_total loop_count [of data i chunks] by simp

text \<open>
  C1, as the code has it. When well-formed segments are followed by a segment cut short
  by the end of the file, the scanner raises no error: it returns the records of the
  segments before the cut, in order, then one record for the segment that is cut short
  (its type from the bytes that are there, its length as declared), and stops.
\<close>

theorem C1_truncated_segment_recorded:
  "read_file fs ruta = Inr (container signature segs @ tail) \<Longrightarrow>
   length signature = 8 \<Longrightarrow> list_all seg_ok segs \<Longrightarrow>
   tail \<noteq> [] \<Longrightarrow> length tail < 12 + int_from_bytes_big (py_slice tail 0 4) \<Longrightarrow>
   analizar_png fs ruta =
     Inr (map seg_record segs @
            [(decode_latin1 (py_slice tail 4 8), int_from_bytes_big (py_slice tail 0 4))])"
  by (simp add: analizar_png_def scan_truncated)

theorem C1_truncated_segment_recorded_witness:
  "read_file [([''a.png''], File truncated_png)] [''a.png'']
     = Inr (container png_signature [seg_IHDR] @ cut_tail) \<and>
   length png_signature = 8 \<and> list_all seg_ok [seg_IHDR] \<and> cut_tail \<noteq> [] \<and>
   length cut_tail < 12 + int_from_bytes_big (py_slice cut_tail 0 4) \<and>
   analizar_png [([''a.png''], File truncated_png)] [''a.png'']
     = Inr [(''IHDR'', 13), (''tEXt'', 40)]"
proof -
  have rd: "read_file [([''a.png''], File truncated_png)] [''a.png'']
              = Inr (container png_signature [seg_IHDR] @ cut_tail)"
    by (simp add: read_file_def truncated_png_def)
  have sig: "length png_signature = 8"
    by (simp add: png_signature_def)
  have oks: "list_all seg_ok [seg_IHDR]"
    by (simp add: seg_ok_examples)
  have cut: "length cut_tail < 12 + int_from_bytes_big (py_slice cut_tail 0 4)"
    by (simp add: cut_tail_fields)
  show ?thesis
    using C1_truncated_segment_recorded [OF rd sig oks cut_tail_fields(1) cut] rd sig oks cut
    by (simp add: cut_tail_fields seg_record_examples)
qed

text \<open>
  C1, as the specification states it, fails: on the file \<open>truncated_png\<close> the segment at
  cursor 33 declares 40 bytes of payload and the file ends after 5 of them, yet the scan
  returns normally, with a record for that segment, and no error is reported.
\<close>

theorem C1_counterexample:
  "reads_past_end truncated_png 33 \<and>
   analizar_png [([''a.png''], File truncated_png)] [''a.png'']
     = Inr [(''IHDR'', 13), (''tEXt'', 40)]"
proof -
  have "analizar_png_bytes truncated_png = [(''IHDR'', 13), (''tEXt'', 40)]"
    unfolding truncated_png_def
    by (simp add: scan_truncated png_signature_def seg_ok_examples cut_tail_fields
          seg_record_examples)
  then show ?thesis
    using truncated_png_past_end by (simp add: analizar_png_def read_file_def)
qed

section \<open>The claims about the reports\<close>

lemma reporte_png_loop_eq:
  "reporte_png_loop chunks out eliminado =
     (out @ map (\<lambda>(ctype, len).
                   if ctype \<in> set [''IHDR'', ''IDAT'', ''IEND'']
                   then Conservado ctype len else Eliminado ctype len) chunks,
      eliminado + sum_list (map snd
        (filter (\<lambda>(ctype, len). ctype \<notin> set [''IHDR'', ''IDAT'', ''IEND'']) chunks)))"
  by (induction chunks out eliminado rule: reporte_png_loop.induct) simp_all

lemma scan_scenario_a:
  "analizar_png_bytes (container png_signature scenario_a) =
     [(''IHDR'', 13), (''tEXt'', 40), (''IDAT'', 5000), (''tIME'', 7), (''IEND'', 0)]"
proof -
  have oks: "list_all seg_ok scenario_a"
    by (simp add: scenario_a_def seg_ok_examples)
  have sig: "length png_signature = 8"
    by (simp add: png_signature_def)
  have "analizar_png_bytes (container png_signature scenario_a) = map seg_record scenario_a"
    using scan_container [OF oks, of png_signature] by (simp only: sig analizar_png_bytes_def)
  then show ?thesis
    by (simp add: scenario_a_def seg_record_examples)
qed

text \<open>
  C2. The PNG report keeps a segment (CRITICAL) exactly when its type is \<^verbatim>\<open>IHDR\<close>, \<^verbatim>\<open>IDAT\<close>
  or \<^verbatim>\<open>IEND\<close> and removes (ANCILLARY) every other type; the lengths of the kept segments
  never enter the total, the declared length of every removed segment does; the
  classification is a function of the type alone. A PNG with the segments
  \<^verbatim>\<open>IHDR\<close>(13), \<^verbatim>\<open>tEXt\<close>(40), \<^verbatim>\<open>IDAT\<close>(5000), \<^verbatim>\<open>tIME\<close>(7), \<^verbatim>\<open>IEND\<close>(0) reports 47 bytes and lists
  exactly \<^verbatim>\<open>tEXt\<close> and \<^verbatim>\<open>tIME\<close> as removed.
\<close>

theorem C2_png_report_classification:
  "reporte_png_loop chunks out eliminado =
     (out @ map (\<lambda>(ctype, len).
                   if ctype \<in> set [''IHDR'', ''IDAT'', ''IEND'']
                   then Conservado ctype len else Eliminado ctype len) chunks,
      eliminado + sum_list (map snd
        (filter (\<lambda>(ctype, len). ctype \<notin> set [''IHDR'', ''IDAT'', ''IEND'']) chunks))) \<and>
   reporte_png [''a.png''] ([([''a.png''], File (container png_signature scenario_a))], []) =
     (None, [([''a.png''], File (container png_signature scenario_a))],
      [ReportHeader ''a.png'' 5128,
       Conservado ''IHDR'' 13, Eliminado ''tEXt'' 40, Conservado ''IDAT'' 5000,
       Eliminado ''tIME'' 7, Conservado ''IEND'' 0,
       AhorroEstimado 47])"
proof
  show "reporte_png_loop chunks out eliminado =
     (out @ map (\<lambda>(ctype, len).
                   if ctype \<in> set [''IHDR'', ''IDAT'', ''IEND'']
                   then Conservado ctype len else Eliminado ctype len) chunks,
      eliminado + sum_list (map snd
        (filter (\<lambda>(ctype, len). ctype \<notin> set [''IHDR'', ''IDAT'', ''IEND'']) chunks)))"
    by (rule reporte_png_loop_eq)
next
  let ?fs = "[([''a.png''], File (container png_signature scenario_a))]"
  have scan: "analizar_png ?fs [''a.png'']
                = Inr [(''IHDR'', 13), (''tEXt'', 40), (''IDAT'', 5000), (''tIME'', 7), (''IEND'', 0)]"
    by (simp add: analizar_png_def read_file_def scan_scenario_a)
  have size: "getsize ?fs [''a.png''] = Inr 5128"
    by (simp add: getsize_def length_scenario_a)
  show "reporte_png [''a.png''] (?fs, []) =
     (None, ?fs,
      [ReportHeader ''a.png'' 5128,
       Conservado ''IHDR'' 13, Eliminado ''tEXt'' 40, Conservado ''IDAT'' 5000,
       Eliminado ''tIME'' 7, Conservado ''IEND'' 0,
       AhorroEstimado 47])"
    by (simp add: reporte_png_def scan size print_def path_name_def)
qed

lemma exif_loop_eq:
  "exif_loop pil items s =
     (fst s, snd s @ map (\<lambda>(tag_id, val). TagLine (tag_name pil tag_id) val) items)"
  by (induction pil items s rule: exif_loop.induct) (simp_all add: print_def)

text \<open>
  C4. When the tag directory of a file is read and is not empty, the tag report prints one
  line for every tag of the directory, in order, none dropped; a tag id without a name
  in the table is labelled \<^verbatim>\<open>Unknown-<id>\<close>; and the estimate printed is the length of the
  serialised directory as a whole, not a sum over the tags.
\<close>

theorem C4_tag_report_complete:
  "getsize fs image_path = Inr total_size \<Longrightarrow>
   open_exif pil fs image_path = Inr exif_data \<Longrightarrow> exif_data \<noteq> [] \<Longrightarrow>
   pil_tobytes pil exif_data = Inr raw_exif \<Longrightarrow>
   reporte_exif pil image_path (fs, out) =
     (None, fs,
      out @ [ReportHeader (path_name image_path) total_size, ExifEncontrado]
          @ map (\<lambda>(tag_id, val). TagLine (tag_name pil tag_id) val) exif_data
          @ [AhorroEstimado (length raw_exif)]) \<and>
   (\<forall>tag_id. pil_TAGS pil tag_id = None \<longrightarrow>
      tag_name pil tag_id = ''Unknown-'' @ str_nat tag_id)"
  by (simp add: reporte_exif_def exif_loop_eq print_def tag_name_def)

theorem C4_tag_report_complete_witness:
  "getsize [([''a.jpg''], File [1, 2, 3])] [''a.jpg''] = Inr 3 \<and>
   open_exif example_pil [([''a.jpg''], File [1, 2, 3])] [''a.jpg''] = Inr example_exif \<and>
   example_exif \<noteq> [] \<and> length example_exif = 12 \<and>
   pil_tobytes example_pil example_exif = Inr (replicate 312 0) \<and>
   pil_TAGS example_pil 59932 = None \<and>
   reporte_exif example_pil [''a.jpg''] ([([''a.jpg''], File [1, 2, 3])], []) =
     (None, [([''a.jpg''], File [1, 2, 3])],
      [ReportHeader ''a.jpg'' 3, ExifEncontrado,
       TagLine ''Make'' ''Canon'', TagLine ''Model'' ''EOS'', TagLine ''Orientation'' ''1'',
       TagLine ''XResolution'' ''72'', TagLine ''YResolution'' ''72'',
       TagLine ''ResolutionUnit'' ''2'', TagLine ''Software'' ''GIMP'',
       TagLine ''DateTime'' ''2020:01:01'', TagLine ''YCbCrPositioning'' ''1'',
       TagLine ''Unknown-59932'' ''pad'', TagLine ''Unknown-59933'' ''x'',
       TagLine ''Unknown-60000'' ''y'',
       AhorroEstimado 312])"
proof -
  let ?fs = "[([''a.jpg''], File [1, 2, 3])]"
  have size: "getsize ?fs [''a.jpg''] = Inr 3"
    by (simp add: getsize_def)
  have exif: "open_exif example_pil ?fs [''a.jpg''] = Inr example_exif"
    by (simp add: open_exif_def read_file_def example_pil_def)
  have ne: "example_exif \<noteq> []" and n: "length example_exif = 12"
    by (simp_all add: example_exif_def)
  have raw: "pil_tobytes example_pil example_exif = Inr (replicate 312 0)"
    by (simp add: example_pil_def n)
  have unknown: "pil_TAGS example_pil 59932 = None"
    by (simp add: example_pil_def)
  have names: "map (\<lambda>(tag_id, val). TagLine (tag_name example_pil tag_id) val) example_exif =
      [TagLine ''Make'' ''Canon'', TagLine ''Model'' ''EOS'', TagLine ''Orientation'' ''1'',
       TagLine ''XResolution'' ''72'', TagLine ''YResolution'' ''72'',
       TagLine ''ResolutionUnit'' ''2'', TagLine ''Software'' ''GIMP'',
       TagLine ''DateTime'' ''2020:01:01'', TagLine ''YCbCrPositioning'' ''1'',
       TagLine ''Unknown-59932'' ''pad'', TagLine ''Unknown-59933'' ''x'',
       TagLine ''Unknown-60000'' ''y'']"
    by (simp add: example_exif_def tag_name_def example_pil_def str_nat.simps char_of_eq_iff)
  show ?thesis
    using C4_tag_report_complete [OF size exif ne raw, of "[]"] size exif ne n raw unknown
    by (simp add: names path_name_def)
qed

section \<open>The claims about cleaning\<close>

lemma mode_convert [simp]: "mode (convert pil m img) = m"
  by (simp add: convert_def)

lemma size_convert [simp]: "size_im (convert pil m img) = size_im img"
  by (simp add: convert_def)

lemma mode_paste [simp]: "mode (paste dst src) = mode dst"
  by (simp add: paste_def)

lemma mode_new_image [simp]: "mode (new_image pil m sz) = m"
  by (simp add: new_image_def)

lemma mode_reconstruct: "mode (reconstruct pil img) = mode (resolve_mode pil img)"
  by (simp add: reconstruct_def Let_def)

lemma pixels_reconstruct: "pixels (reconstruct pil img) = pixels (resolve_mode pil img)"
  by (simp add: reconstruct_def Let_def paste_def)

lemma info_reconstruct: "info (reconstruct pil img) = []"
  by (simp add: reconstruct_def Let_def paste_def new_image_def)

text \<open>
  C3. An image decoded in the indexed-palette mode \<^verbatim>\<open>P\<close> is converted to a direct-colour
  mode before it is copied: to \<^verbatim>\<open>RGBA\<close> when \<^verbatim>\<open>info\<close> has a transparency entry, to \<^verbatim>\<open>RGB\<close>
  otherwise. The new image is allocated with the mode and size of the converted image
  and receives its samples, so the reconstructed image has the resolved mode.
\<close>

theorem C3_palette_resolved_before_copy:
  "mode img = ''P'' \<Longrightarrow>
   resolve_mode pil img =
     convert pil (if dict_get (info img) ''transparency'' \<noteq> PyNone then ''RGBA'' else ''RGB'')
       img \<and>
   reconstruct pil img =
     paste (new_image pil (mode (resolve_mode pil img)) (size_im img)) (resolve_mode pil img) \<and>
   mode (reconstruct pil img) =
     (if dict_get (info img) ''transparency'' \<noteq> PyNone then ''RGBA'' else ''RGB'')"
  by (simp add: resolve_mode_def reconstruct_def Let_def)

theorem C3_palette_resolved_before_copy_witness:
  "mode example_image = ''P'' \<and>
   dict_get (info example_image) ''transparency'' \<noteq> PyNone \<and>
   mode (reconstruct example_pil example_image) = ''RGBA'' \<and>
   mode (reconstruct example_pil (example_image\<lparr>info := []\<rparr>)) = ''RGB''"
proof -
  have p: "mode example_image = ''P''" "mode (example_image\<lparr>info := []\<rparr>) = ''P''"
    by (simp_all add: example_image_def)
  have t: "dict_get (info example_image) ''transparency'' \<noteq> PyNone"
    "dict_get (info (example_image\<lparr>info := []\<rparr>)) ''transparency'' = PyNone"
    by (simp_all add: example_image_def dict_get_def)
  show ?thesis
    using C3_palette_resolved_before_copy [OF p(1), of example_pil]
      C3_palette_resolved_before_copy [OF p(2), of example_pil] p t
    by simp
qed

text \<open>
  C5. When the suffix of the source, in lower case, is \<^verbatim>\<open>.jpg\<close> or \<^verbatim>\<open>.jpeg\<close>, a reconstructed
  image of mode \<^verbatim>\<open>RGBA\<close>, \<^verbatim>\<open>LA\<close> or \<^verbatim>\<open>P\<close> is converted to \<^verbatim>\<open>RGB\<close> for saving, any other is
  saved as it is, and the image is saved with the format \<^verbatim>\<open>JPEG\<close>, quality 95 and
  optimisation. For every other suffix the reconstructed image itself is saved, with no
  format and no parameter given.
\<close>

theorem C5_format_specific_finalization:
  "(lower (path_suffix image_path) \<in> set [''.jpg'', ''.jpeg''] \<longrightarrow>
      save_format (finalize pil image_path output_path clean_img) = Some ''JPEG'' \<and>
      save_params (finalize pil image_path output_path clean_img)
        = [(''quality'', PyInt 95), (''optimize'', PyBool True)] \<and>
      save_path (finalize pil image_path output_path clean_img) = output_path \<and>
      save_img (finalize pil image_path output_path clean_img)
        = (if mode clean_img \<in> set [''RGBA'', ''LA'', ''P'']
           then convert pil ''RGB'' clean_img else clean_img) \<and>
      mode (save_img (finalize pil image_path output_path clean_img))
        \<notin> set [''RGBA'', ''LA'', ''P'']) \<and>
   (lower (path_suffix image_path) \<notin> set [''.jpg'', ''.jpeg''] \<longrightarrow>
      finalize pil image_path output_path clean_img =
        \<lparr>save_img = clean_img, save_path = output_path,
         save_format = None, save_params = []\<rparr>)"
  by (simp add: finalize_def)

lemma suffix_examples:
  "lower (path_suffix [''photo.JPG'']) = ''.jpg''"
  "lower (path_suffix [''logo.png'']) = ''.png''"
  by (simp_all add: path_suffix_def path_name_def lower_def lower_char_def char_of_eq_iff)

theorem C5_format_specific_finalization_witness:
  "lower (path_suffix [''photo.JPG'']) \<in> set [''.jpg'', ''.jpeg''] \<and>
   lower (path_suffix [''logo.png'']) \<notin> set [''.jpg'', ''.jpeg''] \<and>
   mode (reconstruct example_pil example_image) = ''RGBA'' \<and>
   save_format (finalize example_pil [''photo.JPG''] [''photo_clean.JPG'']
       (reconstruct example_pil example_image)) = Some ''JPEG'' \<and>
   save_params (finalize example_pil [''photo.JPG''] [''photo_clean.JPG'']
       (reconstruct example_pil example_image))
     = [(''quality'', PyInt 95), (''optimize'', PyBool True)] \<and>
   mode (save_img (finalize example_pil [''photo.JPG''] [''photo_clean.JPG'']
       (reconstruct example_pil example_image))) = ''RGB'' \<and>
   finalize example_pil [''logo.png''] [''logo_clean.png'']
       (reconstruct example_pil example_image) =
     \<lparr>save_img = reconstruct example_pil example_image,
      save_path = [''logo_clean.png''], save_format = None, save_params = []\<rparr>"
proof -
  let ?c = "reconstruct example_pil example_image"
  have m: "mode ?c = ''RGBA''"
    by (simp add: mode_reconstruct resolve_mode_def example_image_def dict_get_def)
  have jpg: "lower (path_suffix [''photo.JPG'']) \<in> set [''.jpg'', ''.jpeg'']"
    and png: "lower (path_suffix [''logo.png'']) \<notin> set [''.jpg'', ''.jpeg'']"
    by (simp_all add: suffix_examples)
  note a = C5_format_specific_finalization [of "[''photo.JPG'']" example_pil
      "[''photo_clean.JPG'']" ?c, THEN conjunct1, THEN mp, OF jpg]
  note b = C5_format_specific_finalization [of "[''logo.png'']" example_pil
      "[''logo_clean.png'']" ?c, THEN conjunct2, THEN mp, OF png]
  have fmt: "save_format (finalize example_pil [''photo.JPG''] [''photo_clean.JPG''] ?c)
               = Some ''JPEG''"
    using a by (rule conjunct1)
  have par: "save_params (finalize example_pil [''photo.JPG''] [''photo_clean.JPG''] ?c)
               = [(''quality'', PyInt 95), (''optimize'', PyBool True)]"
    using a by (rule conjunct2 [THEN conjunct1])
  have "save_img (finalize example_pil [''photo.JPG''] [''photo_clean.JPG''] ?c)
          = (if mode ?c \<in> set [''RGBA'', ''LA'', ''P''] then convert example_pil ''RGB'' ?c else ?c)"
    using a by (rule conjunct2 [THEN conjunct2, THEN conjunct2, THEN conjunct1])
  then have rgb: "mode (save_img (finalize example_pil [''photo.JPG''] [''photo_clean.JPG''] ?c))
                    = ''RGB''"
    by (simp add: m)
  show ?thesis
    using jpg png m fmt par rgb b by (intro conjI)
qed

lemma stem_suffix: "path_stem p @ path_suffix p = path_name p"
  by (simp add: path_stem_def path_suffix_def Let_def split: option.split)

lemma last_output_path:
  "last (output_path_of image_path out_dir)
     = path_stem image_path @ ''_clean'' @ path_suffix image_path"
  by (simp add: output_path_of_def split: option.split)

lemma output_path_differs: "output_path_of image_path out_dir \<noteq> image_path"
proof
  assume eq: "output_path_of image_path out_dir = image_path"
  have "output_path_of image_path out_dir \<noteq> []"
    by (simp add: output_path_of_def split: option.split)
  with eq have "image_path \<noteq> []"
    by simp
  then have "path_name image_path = last image_path"
    by (simp add: path_name_def)
  also have "\<dots> = path_stem image_path @ ''_clean'' @ path_suffix image_path"
    using last_output_path [of image_path out_dir] eq by simp
  finally have "length (path_name image_path)
                  = length (path_stem image_path) + 6 + length (path_suffix image_path)"
    by simp
  moreover have "length (path_name image_path)
                   = length (path_stem image_path) + length (path_suffix image_path)"
    using stem_suffix [of image_path, symmetric] by (simp only: length_append)
  ultimately show False
    by simp
qed

lemma mkdir_each_keeps:
  "mkdir_each fs ds = Inr fs' \<Longrightarrow> map_of fs p = Some v \<Longrightarrow> map_of fs' p = Some v"
proof (induction ds arbitrary: fs)
  case Nil
  then show ?case by simp
next
  case (Cons d ds)
  show ?case
  proof (cases "map_of fs d")
    case None
    with Cons.prems have "mkdir_each (fs @ [(d, Dir)]) ds = Inr fs'"
      by (simp split: if_splits)
    moreover have "map_of (fs @ [(d, Dir)]) p = Some v"
      using Cons.prems(2) by (simp add: map_add_Some_iff)
    ultimately show ?thesis
      by (rule Cons.IH)
  next
    case (Some n)
    with Cons.prems have "mkdir_each fs ds = Inr fs'"
      by (cases n) simp_all
    then show ?thesis
      using Cons.prems(2) by (rule Cons.IH)
  qed
qed

lemma write_file_keeps:
  "write_file fs q bs = Inr fs' \<Longrightarrow> p \<noteq> q \<Longrightarrow> map_of fs' p = map_of fs p"
  by (auto simp: write_file_def update_conv' split: option.splits node.splits if_splits)

lemma remove_file_keeps: "p \<noteq> q \<Longrightarrow> map_of (remove_file fs q) p = map_of fs p"
  by (simp add: remove_file_def delete_conv')

lemma save_keeps:
  assumes other: "p \<noteq> save_path call"
  shows "map_of (snd (save pil call fs)) p = map_of fs p"
proof (cases "pil_encode pil call")
  case (Refused e)
  then show ?thesis
    by (simp add: save_def)
next
  case (Written out)
  then show ?thesis
    using other write_file_keeps [of fs "save_path call" out _ p]
    by (simp add: save_def split: sum.split)
next
  case (Broken e out)
  show ?thesis
  proof (cases "write_file fs (save_path call) out")
    case (Inl e')
    with Broken show ?thesis
      by (simp add: save_def)
  next
    case (Inr fs')
    then have "map_of fs' p = map_of fs p"
      using other by (rule write_file_keeps)
    with Broken Inr other show ?thesis
      by (simp add: save_def remove_file_keeps)
  qed
qed

lemma clean_body_keeps:
  assumes src: "map_of fs image_path = Some v"
  shows "map_of (snd (clean_body pil image_path out_dir fs)) image_path = Some v"
proof -
  let ?made = "case out_dir of Some d \<Rightarrow> mkdir_parents fs d | None \<Rightarrow> Inr fs"
  show ?thesis
  proof (cases ?made)
    case (Inl e)
    then show ?thesis
      using src by (simp add: clean_body_def)
  next
    case (Inr fs1)
    have src1: "map_of fs1 image_path = Some v"
    proof (cases out_dir)
      case None
      with Inr src show ?thesis by simp
    next
      case (Some d)
      with Inr have "mkdir_each fs (map (\<lambda>k. take k d) [1 ..< Suc (length d)]) = Inr fs1"
        by (simp add: mkdir_parents_def)
      then show ?thesis
        using src by (rule mkdir_each_keeps)
    qed
    have saved: "map_of (snd (save pil (finalize pil image_path
                     (output_path_of image_path out_dir) clean_img) fs1)) image_path = Some v"
      for clean_img
    proof -
      have "image_path \<noteq> save_path (finalize pil image_path
              (output_path_of image_path out_dir) clean_img)"
        using output_path_differs [of image_path out_dir] by (auto simp: finalize_def)
      then show ?thesis
        using src1 by (simp add: save_keeps)
    qed
    show ?thesis
      using Inr src1 saved
      by (simp add: clean_body_def Let_def split: sum.splits)
  qed
qed

text \<open>
  C10. Cleaning never modifies the source file. The output path is the source's stem,
  \<^verbatim>\<open>_clean\<close> and the source's suffix, in the directory of the source or in the output
  directory given; stem and suffix together are the name of the source, so the output
  path is never the input path; and in a file system without links the entry at the
  input path (the file with its bytes) is the same after \<^verbatim>\<open>clean_image_metadata\<close> as
  before, whether it succeeds or fails.
\<close>

theorem C10_clean_keeps_source:
  "output_path_of image_path out_dir =
     (case out_dir of Some d \<Rightarrow> d | None \<Rightarrow> path_parent image_path)
       @ [path_stem image_path @ ''_clean'' @ path_suffix image_path] \<and>
   path_stem image_path @ path_suffix image_path = path_name image_path \<and>
   output_path_of image_path out_dir \<noteq> image_path \<and>
   (map_of fs image_path = Some v \<longrightarrow>
      map_of (fst (clean_image_metadata pil image_path out_dir (fs, out))) image_path
        = Some v)"
proof -
  have "output_path_of image_path out_dir =
     (case out_dir of Some d \<Rightarrow> d | None \<Rightarrow> path_parent image_path)
       @ [path_stem image_path @ ''_clean'' @ path_suffix image_path]"
    by (simp add: output_path_of_def split: option.split)
  moreover have "fst (clean_image_metadata pil image_path out_dir (fs, out))
                   = snd (clean_body pil image_path out_dir fs)"
    by (simp add: clean_image_metadata_def split: prod.split option.split)
  ultimately show ?thesis
    using stem_suffix [of image_path] output_path_differs [of image_path out_dir]
      clean_body_keeps [of fs image_path v pil out_dir]
    by simp
qed

lemma clean_example:
  "clean_image_metadata example_pil [''pics'', ''logo.png''] None
     ([([''pics''], Dir), ([''pics'', ''logo.png''], File (png_signature @ [1, 2, 3]))], []) =
   ([([''pics''], Dir), ([''pics'', ''logo.png''], File (png_signature @ [1, 2, 3])),
     ([''pics'', ''logo_clean.png''], File png_signature)],
    [Cleaned ''logo.png'' ''logo_clean.png''])"
  by (simp add: clean_image_metadata_def clean_body_def output_path_of_def path_stem_def
        path_suffix_def path_name_def path_parent_def open_image_def read_file_def
        example_pil_def save_def write_file_def png_signature_def finalize_def lower_def
        lower_char_def char_of_eq_iff)

theorem C10_clean_keeps_source_witness:
  "map_of [([''pics''], Dir), ([''pics'', ''logo.png''], File (png_signature @ [1, 2, 3]))]
       [''pics'', ''logo.png'']
     = Some (File (png_signature @ [1, 2, 3])) \<and>
   output_path_of [''pics'', ''logo.png''] None = [''pics'', ''logo_clean.png''] \<and>
   map_of (fst (clean_image_metadata example_pil [''pics'', ''logo.png''] None
       ([([''pics''], Dir), ([''pics'', ''logo.png''], File (png_signature @ [1, 2, 3]))], [])))
       [''pics'', ''logo.png'']
     = Some (File (png_signature @ [1, 2, 3])) \<and>
   map_of (fst (clean_image_metadata example_pil [''pics'', ''logo.png''] None
       ([([''pics''], Dir), ([''pics'', ''logo.png''], File (png_signature @ [1, 2, 3]))], [])))
       [''pics'', ''logo_clean.png'']
     = Some (File png_signature)"
proof -
  let ?fs = "[([''pics''], Dir), ([''pics'', ''logo.png''], File (png_signature @ [1, 2, 3]))]"
  have src: "map_of ?fs [''pics'', ''logo.png''] = Some (File (png_signature @ [1, 2, 3]))"
    by simp
  have out: "output_path_of [''pics'', ''logo.png''] None = [''pics'', ''logo_clean.png'']"
    by (simp add: output_path_of_def path_stem_def path_suffix_def path_name_def
          path_parent_def)
  have kept: "map_of (fst (clean_image_metadata example_pil [''pics'', ''logo.png''] None
                 (?fs, []))) [''pics'', ''logo.png'']
               = Some (File (png_signature @ [1, 2, 3]))"
    using C10_clean_keeps_source [of "[''pics'', ''logo.png'']" None ?fs
        "File (png_signature @ [1, 2, 3])" example_pil "[]"] src
    by blast
  have new: "map_of (fst (clean_image_metadata example_pil [''pics'', ''logo.png''] None
                (?fs, []))) [''pics'', ''logo_clean.png'']
              = Some (File png_signature)"
    by (simp add: clean_example)
  show ?thesis
    using src out kept new by (intro conjI)
qed

section \<open>Errors in the main loop\<close>

text \<open>
  What a call prints does not depend on what was printed before it: a run from a state
  with output \<open>out\<close> is the run from the empty output, with \<open>out\<close> in front.
\<close>

lemma reporte_png_out:
  "reporte_png p (fs, out) =
     (case reporte_png p (fs, []) of (r, fs', new) \<Rightarrow> (r, fs', out @ new))"
  by (simp add: reporte_png_def reporte_png_loop_eq print_def Let_def split: sum.splits)

lemma reporte_exif_out:
  "reporte_exif pil p (fs, out) =
     (case reporte_exif pil p (fs, []) of (r, fs', new) \<Rightarrow> (r, fs', out @ new))"
  by (simp add: reporte_exif_def exif_loop_eq print_def Let_def split: sum.splits)

lemma clean_image_metadata_out:
  "clean_image_metadata pil p od (fs, out) =
     (case clean_image_metadata pil p od (fs, []) of (fs', new) \<Rightarrow> (fs', out @ new))"
  by (simp add: clean_image_metadata_def split: prod.splits option.splits)

lemma handle_image_out:
  "handle_image pil a p (fs, out) =
     (case handle_image pil a p (fs, []) of (r, fs', new) \<Rightarrow> (r, fs', out @ new))"
proof -
  have "clean_image_metadata pil p (output_dir a) (fs, out) =
          (case clean_image_metadata pil p (output_dir a) (fs, []) of
             (fs', new) \<Rightarrow> (fs', out @ new))"
    by (rule clean_image_metadata_out)
  then show ?thesis
    using reporte_png_out [of p fs out] reporte_exif_out [of pil p fs out]
    by (simp add: handle_image_def print_def split: prod.splits)
qed

lemma dir_loop_out:
  "dir_loop pil a items found (fs, out) =
     (case dir_loop pil a items found (fs, []) of
        (r, found', fs', new) \<Rightarrow> (r, found', fs', out @ new))"
proof (induction items arbitrary: found fs out)
  case Nil
  show ?case by simp
next
  case (Cons item items)
  show ?case
  proof (cases "is_file fs item \<and> lower (path_suffix item) \<in> set SUPPORTED_EXTENSIONS")
    case False
    then have "dir_loop pil a (item # items) found (fs, out) = dir_loop pil a items found (fs, out)"
      "dir_loop pil a (item # items) found (fs, []) = dir_loop pil a items found (fs, [])"
      by auto
    then show ?thesis
      using Cons.IH [of found fs out] by (simp only:)
  next
    case True
    obtain r fs1 new1 where h0: "handle_image pil a item (fs, []) = (r, fs1, new1)"
      by (cases "handle_image pil a item (fs, [])") auto
    then have h: "handle_image pil a item (fs, out) = (r, fs1, out @ new1)"
      using handle_image_out [of pil a item fs out] by simp
    show ?thesis
    proof (cases r)
      case (Some e)
      with True h0 h show ?thesis by simp
    next
      case None
      obtain r2 found2 fs2 new2 where d0: "dir_loop pil a items True (fs1, []) = (r2, found2, fs2, new2)"
        by (cases "dir_loop pil a items True (fs1, [])") auto
      have "dir_loop pil a items True (fs1, new1) = (r2, found2, fs2, new1 @ new2)"
        using Cons.IH [of True fs1 new1] d0 by simp
      moreover have "dir_loop pil a items True (fs1, out @ new1) = (r2, found2, fs2, (out @ new1) @ new2)"
        using Cons.IH [of True fs1 "out @ new1"] d0 by simp
      ultimately show ?thesis
        using True None h0 h by simp
    qed
  qed
qed

lemma main_loop_out:
  "main_loop pil a inputs (fs, out) =
     (case main_loop pil a inputs (fs, []) of (r, fs', new) \<Rightarrow> (r, fs', out @ new))"
proof (induction inputs arbitrary: fs out)
  case Nil
  show ?case by simp
next
  case (Cons p rest)
  have shift: "main_loop pil a rest (fs1, out @ new1) =
                 (case main_loop pil a rest (fs1, new1) of (r, fs', new) \<Rightarrow> (r, fs', out @ new))"
    for fs1 new1
  proof -
    obtain r fs2 new2 where m0: "main_loop pil a rest (fs1, []) = (r, fs2, new2)"
      by (cases "main_loop pil a rest (fs1, [])") auto
    have "main_loop pil a rest (fs1, new1) = (r, fs2, new1 @ new2)"
      using Cons.IH [of fs1 new1] m0 by simp
    moreover have "main_loop pil a rest (fs1, out @ new1) = (r, fs2, (out @ new1) @ new2)"
      using Cons.IH [of fs1 "out @ new1"] m0 by simp
    ultimately show ?thesis by simp
  qed
  consider (missing) "\<not> path_exists fs p"
    | (dir) "path_exists fs p" "is_dir fs p"
    | (regular) "path_exists fs p" "\<not> is_dir fs p" "is_file fs p"
    | (other) "path_exists fs p" "\<not> is_dir fs p" "\<not> is_file fs p"
    by blast
  then show ?case
  proof cases
    case missing
    then show ?thesis
      using shift [of fs "[PathDoesNotExist p]"] by (simp add: print_def)
  next
    case dir
    show ?thesis
    proof (cases "iterdir fs p")
      case (Inl e)
      with dir show ?thesis
        by (simp add: Let_def print_def)
    next
      case (Inr items)
      obtain r found fs1 new1 where
        d0: "dir_loop pil a (sort items) False (fs, [ProcessingDirectory p]) = (r, found, fs1, new1)"
        by (cases "dir_loop pil a (sort items) False (fs, [ProcessingDirectory p])") auto
      obtain r' found' fs1' new1' where
        d00: "dir_loop pil a (sort items) False (fs, []) = (r', found', fs1', new1')"
        by (cases "dir_loop pil a (sort items) False (fs, [])") auto
      have e1: "r = r'" "found = found'" "fs1 = fs1'" "new1 = [ProcessingDirectory p] @ new1'"
        using dir_loop_out [of pil a "sort items" False fs "[ProcessingDirectory p]"] d0 d00
        by simp_all
      have d1: "dir_loop pil a (sort items) False (fs, out @ [ProcessingDirectory p])
                  = (r, found, fs1, out @ new1)"
        using dir_loop_out [of pil a "sort items" False fs "out @ [ProcessingDirectory p]"] d00 e1
        by simp
      show ?thesis
      proof (cases r)
        case (Some e)
        with dir Inr d0 d1 show ?thesis
          by (simp add: Let_def print_def)
      next
        case None
        show ?thesis
        proof (cases found)
          case True
          with None dir Inr d0 d1 shift [of fs1 new1] show ?thesis
            by (simp add: Let_def print_def)
        next
          case False
          with None dir Inr d0 d1 shift [of fs1 "new1 @ [NoSupportedImages]"] show ?thesis
            by (simp add: Let_def print_def)
        qed
      qed
    qed
  next
    case regular
    show ?thesis
    proof (cases "lower (path_suffix p) \<in> set SUPPORTED_EXTENSIONS")
      case False
      with regular shift [of fs "[SkippingUnsupported (path_name p)]"] show ?thesis
        by (simp add: print_def)
    next
      case True
      obtain r fs1 new1 where h0: "handle_image pil a p (fs, []) = (r, fs1, new1)"
        by (cases "handle_image pil a p (fs, [])") auto
      then have h: "handle_image pil a p (fs, out) = (r, fs1, out @ new1)"
        using handle_image_out [of pil a p fs out] by simp
      show ?thesis
      proof (cases r)
        case (Some e)
        with regular True h0 h show ?thesis by simp
      next
        case None
        with regular True h0 h shift [of fs1 new1] show ?thesis by simp
      qed
    qed
  next
    case other
    then show ?thesis
      using Cons.IH [of fs out] by simp
  qed
qed
text \<open>
  A path that does not exist prints the message of line 182, and the rest of the run is
  the run on the remaining inputs.
\<close>

lemma main_loop_missing_path:
  assumes "\<not> path_exists fs p"
  shows "main_loop pil a (p # rest) (fs, out) =
           main_loop pil a rest (fs, out @ [PathDoesNotExist p])"
  using assms by (simp add: print_def)

lemma clean_step:
  "is_file (fst s) p \<Longrightarrow> path_exists (fst s) p \<and> \<not> is_dir (fst s) p"
  by (auto simp: is_file_def path_exists_def is_dir_def split: option.splits node.splits)

lemma main_loop_handled:
  assumes isf: "is_file (fst s) p"
    and ext: "lower (path_suffix p) \<in> set SUPPORTED_EXTENSIONS"
    and handled: "handle_image pil a p s = (None, s')"
  shows "main_loop pil a (p # rest) s = main_loop pil a rest s'"
  using clean_step [OF isf] isf ext handled by simp

text \<open>
  Nothing leaves \<^verbatim>\<open>clean_image_metadata\<close>: whatever ends the body of its \<^verbatim>\<open>try\<close> (the output
  directory that cannot be made, the source that cannot be opened or decoded, the target
  that cannot be opened, the encoder that raises) is printed with the name of the file,
  and the loop goes on with the next input.
\<close>

lemma handle_image_clean: "\<not> report a \<Longrightarrow> fst (handle_image pil a p s) = None"
  by (simp add: handle_image_def)

lemma main_loop_clean_failure:
  assumes isf: "is_file (fst s) p"
    and ext: "lower (path_suffix p) \<in> set SUPPORTED_EXTENSIONS"
    and cleaning: "\<not> report a"
    and fails: "clean_body pil p (output_dir a) (fst s) = (Some e, fs')"
  shows "main_loop pil a (p # rest) s =
           main_loop pil a rest (fs', snd s @ [ErrorProcesando (path_name p) e])"
  using clean_step [OF isf] isf ext cleaning fails
  by (simp add: handle_image_def clean_image_metadata_def)

lemma clean_body_decode_failure:
  "open_image pil fs p = Inl e \<Longrightarrow> clean_body pil p None fs = (Some e, fs)"
  by (simp add: clean_body_def)

lemma save_target_failure:
  "pil_encode pil call = Refused e \<Longrightarrow> save pil call fs = (Some e, fs)"
  "pil_encode pil call = Broken e bs \<Longrightarrow> write_file fs (save_path call) bs = Inl e' \<Longrightarrow>
     save pil call fs = (Some e', fs)"
  "pil_encode pil call = Broken e bs \<Longrightarrow> write_file fs (save_path call) bs = Inr fs' \<Longrightarrow>
     fst (save pil call fs) = Some e"
  by (simp_all add: save_def)

text \<open>
  The tag report meets no exception on a path that exists: the size is known, and the
  \<^verbatim>\<open>try\<close> of line 85 takes every failure to open, decode or serialise.
\<close>

lemma reporte_exif_ok: "path_exists (fst s) p \<Longrightarrow> fst (reporte_exif pil p s) = None"
  by (auto simp: reporte_exif_def path_exists_def getsize_def split: option.splits node.splits)

text \<open>
  The PNG report has no \<^verbatim>\<open>try\<close>: when the file cannot be read, the exception of \<^verbatim>\<open>open\<close>
  (line 51) leaves \<^verbatim>\<open>reporte_png\<close> and, being caught nowhere in \<^verbatim>\<open>main\<close>, ends the loop with
  the remaining inputs untouched. The same holds for a directory that cannot be listed
  (line 188), whether the run reports or cleans.
\<close>

lemma reporte_png_raises:
  "read_file (fst s) p = Inl e \<Longrightarrow> reporte_png p s = (Some e, s)"
  by (simp add: reporte_png_def analizar_png_def)

lemma main_loop_report_png_raises:
  assumes isf: "is_file (fst s) p"
    and png: "lower (path_suffix p) = ''.png''"
    and reporting: "report a"
    and unreadable: "read_file (fst s) p = Inl e"
  shows "main_loop pil a (p # rest) s = (Some e, s)"
proof -
  have "lower (path_suffix p) \<in> set SUPPORTED_EXTENSIONS"
    using png by (simp add: SUPPORTED_EXTENSIONS_def)
  moreover have "handle_image pil a p s = (Some e, s)"
    using png reporting unreadable by (simp add: handle_image_def reporte_png_raises)
  ultimately show ?thesis
    using clean_step [OF isf] isf by simp
qed

lemma main_loop_iterdir_raises:
  assumes "is_dir (fst s) p" and "iterdir (fst s) p = Inl e"
  shows "main_loop pil a (p # rest) s = (Some e, print (ProcessingDirectory p) s)"
  using assms by (auto simp: is_dir_def path_exists_def print_def Let_def)
section \<open>Concrete runs\<close>

lemma example_paths:
  "\<not> path_exists example_fs [''gone.png'']"
  "is_file example_fs [''bad.jpg'']" "is_file example_fs [''anim.gif'']"
  "is_file example_fs [''logo.png'']" "is_file example_fs [''locked.png'']"
  "is_file example_fs [''locked.jpg'']" "is_dir example_fs [''vault'']"
  by (simp_all add: example_fs_def path_exists_def is_file_def is_dir_def)

lemma example_suffixes:
  "lower (path_suffix [''bad.jpg'']) = ''.jpg''"
  "lower (path_suffix [''anim.gif'']) = ''.gif''"
  "lower (path_suffix [''logo.png'']) = ''.png''"
  "lower (path_suffix [''locked.png'']) = ''.png''"
  "lower (path_suffix [''locked.jpg'']) = ''.jpg''"
  by (simp_all add: path_suffix_def path_name_def lower_def lower_char_def char_of_eq_iff)

lemma example_supported:
  "lower (path_suffix [''bad.jpg'']) \<in> set SUPPORTED_EXTENSIONS"
  "lower (path_suffix [''anim.gif'']) \<in> set SUPPORTED_EXTENSIONS"
  "lower (path_suffix [''logo.png'']) \<in> set SUPPORTED_EXTENSIONS"
  "lower (path_suffix [''locked.png'']) \<in> set SUPPORTED_EXTENSIONS"
  "lower (path_suffix [''locked.jpg'']) \<in> set SUPPORTED_EXTENSIONS"
  by (simp_all add: example_suffixes SUPPORTED_EXTENSIONS_def)

lemma example_read:
  "read_file example_fs [''locked.png''] = Inl (OSError ''Permission denied'')"
  "read_file example_fs [''locked.jpg''] = Inl (OSError ''Permission denied'')"
  "read_file example_fs [''logo.png''] = Inr (container png_signature [seg_IEND])"
  "iterdir example_fs [''vault''] = Inl (OSError ''Permission denied'')"
  by (simp_all add: read_file_def iterdir_def example_fs_def)

lemma example_open:
  "open_image example_pil example_fs [''bad.jpg'']
     = Inl (CodecError ''cannot identify image file'')"
  "open_image example_pil example_fs [''anim.gif''] = Inr example_image"
  "open_image example_pil example_fs [''logo.png''] = Inr example_image"
  "open_image example_pil example_fs [''locked.png''] = Inl (OSError ''Permission denied'')"
  by (simp_all add: open_image_def read_file_def example_fs_def example_pil_def
        example_image_def png_signature_def container_def)

lemma example_encode:
  "pil_encode example_pil (finalize example_pil [''anim.gif''] (output_path_of [''anim.gif''] None)
       (reconstruct example_pil example_image)) = Broken (CodecError ''encoder error'') [71, 73, 70]"
  "pil_encode example_pil (finalize example_pil [''logo.png''] (output_path_of [''logo.png''] None)
       (reconstruct example_pil example_image)) = Written png_signature"
  by (simp_all add: finalize_def example_suffixes output_path_of_def path_stem_def
        path_suffix_def path_name_def path_parent_def example_pil_def)

lemma example_targets:
  "save_path (finalize example_pil [''anim.gif''] (output_path_of [''anim.gif''] None) img)
     = [''anim_clean.gif'']"
  "save_path (finalize example_pil [''logo.png''] (output_path_of [''logo.png''] None) img)
     = [''logo_clean.png'']"
  by (simp_all add: finalize_def output_path_of_def path_stem_def path_suffix_def
        path_name_def path_parent_def)

lemma example_clean_logo:
  "clean_body example_pil [''logo.png''] None example_fs
     = (None, example_fs @ [([''logo_clean.png''], File png_signature)])"
proof -
  have "write_file example_fs [''logo_clean.png''] png_signature
          = Inr (example_fs @ [([''logo_clean.png''], File png_signature)])"
    by (simp add: write_file_def path_parent_def example_fs_def)
  then show ?thesis
    by (simp add: clean_body_def save_def example_open example_encode example_targets)
qed

lemma example_clean_bodies:
  "clean_body example_pil [''bad.jpg''] None example_fs
     = (Some (CodecError ''cannot identify image file''), example_fs)"
  "clean_body example_pil [''anim.gif''] None example_fs
     = (Some (CodecError ''encoder error''), example_fs)"
  "clean_body example_pil [''locked.png''] None example_fs
     = (Some (OSError ''Permission denied''), example_fs)"
proof -
  show "clean_body example_pil [''bad.jpg''] None example_fs
     = (Some (CodecError ''cannot identify image file''), example_fs)"
    by (simp add: clean_body_def example_open)
  show "clean_body example_pil [''locked.png''] None example_fs
     = (Some (OSError ''Permission denied''), example_fs)"
    by (simp add: clean_body_def example_open)
  have new: "\<not> path_exists example_fs [''anim_clean.gif'']"
    by (simp add: path_exists_def example_fs_def)
  have "write_file example_fs [''anim_clean.gif''] [71, 73, 70]
          = Inr (example_fs @ [([''anim_clean.gif''], File [71, 73, 70])])"
    by (simp add: write_file_def path_parent_def example_fs_def)
  moreover have "remove_file (example_fs @ [([''anim_clean.gif''], File [71, 73, 70])])
                   [''anim_clean.gif''] = example_fs"
    by (simp add: remove_file_def example_fs_def)
  ultimately show "clean_body example_pil [''anim.gif''] None example_fs
     = (Some (CodecError ''encoder error''), example_fs)"
    using new by (simp add: clean_body_def save_def example_open example_encode example_targets)
qed

lemma example_run_logo:
  "\<not> report a \<Longrightarrow> output_dir a = None \<Longrightarrow>
   main_loop example_pil a [[''logo.png'']] (example_fs, []) =
     (None, example_fs @ [([''logo_clean.png''], File png_signature)],
      [Cleaned ''logo.png'' ''logo_clean.png''])"
  using clean_step [of "(example_fs, [])" "[''logo.png'']"] example_paths(4) example_supported(3)
  by (simp add: handle_image_def clean_image_metadata_def example_clean_logo
        output_path_of_def path_stem_def path_suffix_def path_name_def path_parent_def)

text \<open>
  A run that cleans a missing path, a file that does not decode, a file whose encoder
  raises and a sound file: three messages of failure, one of success, and no exception.
\<close>

lemma example_clean_run:
  "main example_pil example_args example_fs =
     (None, example_fs @ [([''logo_clean.png''], File png_signature)],
      [PathDoesNotExist [''gone.png''],
       ErrorProcesando ''bad.jpg'' (CodecError ''cannot identify image file''),
       ErrorProcesando ''anim.gif'' (CodecError ''encoder error''),
       Cleaned ''logo.png'' ''logo_clean.png''])"
proof -
  let ?bad = "CodecError ''cannot identify image file''"
  let ?enc = "CodecError ''encoder error''"
  have args: "\<not> report example_args" "output_dir example_args = None"
    "input example_args = [[''gone.png''], [''bad.jpg''], [''anim.gif''], [''logo.png'']]"
    by (simp_all add: example_args_def)
  have run4: "main_loop example_pil example_args [[''logo.png'']] (example_fs, out) =
     (None, example_fs @ [([''logo_clean.png''], File png_signature)],
      out @ [Cleaned ''logo.png'' ''logo_clean.png''])" for out
    using main_loop_out [of example_pil example_args "[[''logo.png'']]" example_fs out]
      example_run_logo [OF args(1,2)]
    by simp
  have run3: "main_loop example_pil example_args [[''anim.gif''], [''logo.png'']] (example_fs, out)
                = main_loop example_pil example_args [[''logo.png'']]
                    (example_fs, out @ [ErrorProcesando ''anim.gif'' ?enc])" for out
    using main_loop_clean_failure [of "(example_fs, out)" "[''anim.gif'']" example_args
        example_pil ?enc example_fs "[[''logo.png'']]"]
      example_paths(3) example_supported(2) args(1,2) example_clean_bodies(2)
    by (simp del: main_loop.simps add: path_name_def)
  have run2: "main_loop example_pil example_args
                [[''bad.jpg''], [''anim.gif''], [''logo.png'']] (example_fs, out)
                = main_loop example_pil example_args [[''anim.gif''], [''logo.png'']]
                    (example_fs, out @ [ErrorProcesando ''bad.jpg'' ?bad])" for out
    using main_loop_clean_failure [of "(example_fs, out)" "[''bad.jpg'']" example_args
        example_pil ?bad example_fs "[[''anim.gif''], [''logo.png'']]"]
      example_paths(2) example_supported(1) args(1,2) example_clean_bodies(1)
    by (simp del: main_loop.simps add: path_name_def)
  have run1: "main_loop example_pil example_args
                [[''gone.png''], [''bad.jpg''], [''anim.gif''], [''logo.png'']] (example_fs, [])
                = main_loop example_pil example_args
                    [[''bad.jpg''], [''anim.gif''], [''logo.png'']]
                    (example_fs, [PathDoesNotExist [''gone.png'']])"
    using main_loop_missing_path [OF example_paths(1), of example_pil example_args _ "[]"]
    by (simp del: main_loop.simps)
  show ?thesis
    by (simp only: main_def args run1 run2 run3 run4) simp
qed
lemma example_report_logo:
  "reporte_png [''logo.png''] (example_fs, out) =
     (None, example_fs,
      out @ [ReportHeader ''logo.png'' 20, Conservado ''IEND'' 0, AhorroEstimado 0])"
proof -
  have sig: "length png_signature = 8"
    by (simp add: png_signature_def)
  have "list_all seg_ok [seg_IEND]"
    by (simp add: seg_ok_examples)
  then have "analizar_png_bytes (container png_signature [seg_IEND]) = map seg_record [seg_IEND]"
    using scan_container [of "[seg_IEND]" png_signature] by (simp only: sig analizar_png_bytes_def)
  then have scan: "analizar_png example_fs [''logo.png''] = Inr [(''IEND'', 0)]"
    by (simp add: analizar_png_def example_read seg_record_examples)
  have size: "getsize example_fs [''logo.png''] = Inr 20"
    by (simp add: getsize_def example_fs_def container_def png_signature_def seg_bytes_def
          seg_IEND_def)
  show ?thesis
    by (simp add: reporte_png_def scan size print_def path_name_def)
qed

lemma example_report_locked_jpg:
  "reporte_exif example_pil [''locked.jpg''] (example_fs, out) =
     (None, example_fs, out @ [NoSePudoLeerExif ''locked.jpg'' (OSError ''Permission denied'')])"
proof -
  have "getsize example_fs [''locked.jpg''] = Inr 3"
    by (simp add: getsize_def example_fs_def)
  then show ?thesis
    by (simp add: reporte_exif_def open_exif_def example_read print_def path_name_def)
qed

lemma example_report_run_logo:
  "report a \<Longrightarrow>
   main_loop example_pil a [[''logo.png'']] (example_fs, out) =
     (None, example_fs,
      out @ [ReportHeader ''logo.png'' 20, Conservado ''IEND'' 0, AhorroEstimado 0])"
  using clean_step [of "(example_fs, out)" "[''logo.png'']"] example_paths(4) example_supported(3)
  by (simp add: handle_image_def example_suffixes example_report_logo)

text \<open>
  C6. The specification has every error resolved for the one input file it belongs to,
  and none ending the run early. For a path that does not exist and for every failure
  while a file is cleaned this is what the program does (\<open>main_loop_missing_path\<close>,
  \<open>main_loop_clean_failure\<close>, \<open>example_clean_run\<close>), and the tag report catches its failures
  too (\<open>reporte_exif_ok\<close>). The PNG report does not: \<^verbatim>\<open>analizar_png\<close> opens the file outside
  any \<^verbatim>\<open>try\<close>, and \<^verbatim>\<open>main\<close> catches nothing. With \<^verbatim>\<open>--report --input locked.png logo.png\<close>,
  where \<^verbatim>\<open>locked.png\<close> exists and cannot be read, the \<^verbatim>\<open>PermissionError\<close> ends the run before
  anything is printed, and \<^verbatim>\<open>logo.png\<close>, whose report alone is three lines, is never
  reached. The same file named \<^verbatim>\<open>locked.jpg\<close> is reported with a warning and the run goes
  on; the same two inputs without \<^verbatim>\<open>--report\<close> give one failure and one cleaned file. A
  directory that cannot be listed ends the run in the same way (line 188).
\<close>

theorem C6_unreadable_png_ends_report_run:
  "main example_pil
       \<lparr>input = [[''locked.png''], [''logo.png'']], output_dir = None, report = True\<rparr>
       example_fs
     = (Some (OSError ''Permission denied''), example_fs, []) \<and>
   main example_pil \<lparr>input = [[''logo.png'']], output_dir = None, report = True\<rparr> example_fs
     = (None, example_fs,
        [ReportHeader ''logo.png'' 20, Conservado ''IEND'' 0, AhorroEstimado 0]) \<and>
   main example_pil
       \<lparr>input = [[''locked.jpg''], [''logo.png'']], output_dir = None, report = True\<rparr>
       example_fs
     = (None, example_fs,
        [NoSePudoLeerExif ''locked.jpg'' (OSError ''Permission denied''),
         ReportHeader ''logo.png'' 20, Conservado ''IEND'' 0, AhorroEstimado 0]) \<and>
   main example_pil
       \<lparr>input = [[''locked.png''], [''logo.png'']], output_dir = None, report = False\<rparr>
       example_fs
     = (None, example_fs @ [([''logo_clean.png''], File png_signature)],
        [ErrorProcesando ''locked.png'' (OSError ''Permission denied''),
         Cleaned ''logo.png'' ''logo_clean.png'']) \<and>
   main example_pil
       \<lparr>input = [[''vault''], [''logo.png'']], output_dir = None, report = False\<rparr>
       example_fs
     = (Some (OSError ''Permission denied''), example_fs, [ProcessingDirectory [''vault'']])"
proof -
  let ?denied = "OSError ''Permission denied''"
  let ?rep = "\<lambda>inputs. \<lparr>input = inputs, output_dir = None, report = True\<rparr>"
  let ?cln = "\<lambda>inputs. \<lparr>input = inputs, output_dir = None, report = False\<rparr>"
  have png: "main_loop example_pil (?rep [[''locked.png''], [''logo.png'']])
               [[''locked.png''], [''logo.png'']] (example_fs, [])
             = (Some ?denied, example_fs, [])"
    using main_loop_report_png_raises [of "(example_fs, [])" "[''locked.png'']"
        "?rep [[''locked.png''], [''logo.png'']]" ?denied example_pil "[[''logo.png'']]"]
      example_paths(5) example_suffixes(4) example_read(1)
    by (simp del: main_loop.simps)
  have logo: "main_loop example_pil (?rep [[''logo.png'']]) [[''logo.png'']] (example_fs, [])
              = (None, example_fs,
                 [ReportHeader ''logo.png'' 20, Conservado ''IEND'' 0, AhorroEstimado 0])"
    using example_report_run_logo [of "?rep [[''logo.png'']]" "[]"] by simp
  have jpg: "main_loop example_pil (?rep [[''locked.jpg''], [''logo.png'']])
               [[''locked.jpg''], [''logo.png'']] (example_fs, [])
             = (None, example_fs,
                [NoSePudoLeerExif ''locked.jpg'' ?denied,
                 ReportHeader ''logo.png'' 20, Conservado ''IEND'' 0, AhorroEstimado 0])"
  proof -
    have "main_loop example_pil (?rep [[''locked.jpg''], [''logo.png'']])
               [[''locked.jpg''], [''logo.png'']] (example_fs, [])
          = main_loop example_pil (?rep [[''locked.jpg''], [''logo.png'']]) [[''logo.png'']]
              (example_fs, [NoSePudoLeerExif ''locked.jpg'' ?denied])"
    proof (rule main_loop_handled)
      show "is_file (fst (example_fs, [])) [''locked.jpg'']"
        by (simp add: example_paths)
      show "lower (path_suffix [''locked.jpg'']) \<in> set SUPPORTED_EXTENSIONS"
        by (rule example_supported)
      show "handle_image example_pil (?rep [[''locked.jpg''], [''logo.png'']]) [''locked.jpg'']
              (example_fs, [])
            = (None, example_fs, [NoSePudoLeerExif ''locked.jpg'' ?denied])"
        by (simp add: handle_image_def example_suffixes example_report_locked_jpg)
    qed
    then show ?thesis
      using example_report_run_logo [of "?rep [[''locked.jpg''], [''logo.png'']]"
          "[NoSePudoLeerExif ''locked.jpg'' ?denied]"]
      by simp
  qed
  have cln: "main_loop example_pil (?cln [[''locked.png''], [''logo.png'']])
               [[''locked.png''], [''logo.png'']] (example_fs, [])
             = (None, example_fs @ [([''logo_clean.png''], File png_signature)],
                [ErrorProcesando ''locked.png'' ?denied, Cleaned ''logo.png'' ''logo_clean.png''])"
  proof -
    have "main_loop example_pil (?cln [[''locked.png''], [''logo.png'']])
               [[''locked.png''], [''logo.png'']] (example_fs, [])
          = main_loop example_pil (?cln [[''locked.png''], [''logo.png'']]) [[''logo.png'']]
              (example_fs, [ErrorProcesando ''locked.png'' ?denied])"
      using main_loop_clean_failure [of "(example_fs, [])" "[''locked.png'']"
          "?cln [[''locked.png''], [''logo.png'']]" example_pil ?denied example_fs
          "[[''logo.png'']]"]
        example_paths(5) example_supported(4) example_clean_bodies(3)
      by (simp del: main_loop.simps add: path_name_def)
    moreover have "main_loop example_pil (?cln [[''locked.png''], [''logo.png'']]) [[''logo.png'']]
              (example_fs, [ErrorProcesando ''locked.png'' ?denied])
          = (None, example_fs @ [([''logo_clean.png''], File png_signature)],
             [ErrorProcesando ''locked.png'' ?denied] @ [Cleaned ''logo.png'' ''logo_clean.png''])"
      using main_loop_out [of example_pil "?cln [[''locked.png''], [''logo.png'']]"
          "[[''logo.png'']]" example_fs "[ErrorProcesando ''locked.png'' ?denied]"]
        example_run_logo [of "?cln [[''locked.png''], [''logo.png'']]"]
      by (simp del: main_loop.simps)
    ultimately show ?thesis
      by simp
  qed
  have vault: "main_loop example_pil (?cln [[''vault''], [''logo.png'']])
                 [[''vault''], [''logo.png'']] (example_fs, [])
               = (Some ?denied, example_fs, [ProcessingDirectory [''vault'']])"
    using main_loop_iterdir_raises [of "(example_fs, [])" "[''vault'']" ?denied example_pil
        "?cln [[''vault''], [''logo.png'']]" "[[''logo.png'']]"]
      example_paths(7) example_read(4)
    by (simp del: main_loop.simps add: print_def)
  show ?thesis
    using png logo jpg cln vault by (simp add: main_def del: main_loop.simps)
qed

end
